theory Spec2Isabelle
  imports Complex_Main "HOL-Library.Sublist" "HOL-Library.Multiset" "HOL-Library.AList"
begin

section \<open>JavaScript values\<close>

text \<open>
  A JavaScript number is a finite value, one of the two infinities, or NaN. Finite values
  are kept as exact reals: rounding to the nearest double is not modelled, and \<open>+0\<close> and
  \<open>-0\<close> are one value (the code never tells them apart).
\<close>

datatype jsnum = Fin real | PInf | NInf | NaN

text \<open>
  The values a table cell can hold: the primitive values that \<open>csv-parser\<close> (strings
  only) and \<open>JSON.parse\<close> put into a row object (strings, numbers, booleans, \<open>null\<close>),
  and \<open>undefined\<close> for a property that is not there. Nested arrays and objects, which
  the CSV table never holds, are not modelled.
\<close>

datatype jsval = JUndefined | JNull | JBool bool | JNum jsnum | JStr string

text \<open>
  A row object is its properties in insertion order. \<open>Object.keys\<close> lists the keys in
  that order and \<open>r[k]\<close> is \<open>undefined\<close> for a key the object does not have.
\<close>

type_synonym js_object = "(string \<times> jsval) list"

definition Object_keys :: "js_object \<Rightarrow> string list" where
  "Object_keys r = map fst r"

definition get_prop :: "js_object \<Rightarrow> string \<Rightarrow> jsval" where
  "get_prop r k = (case map_of r k of None \<Rightarrow> JUndefined | Some v \<Rightarrow> v)"

text \<open>
  Building an object from a list of keys and a list of values, position by position
  (the inverse a client applies to the columnar payload).
\<close>

definition zip_object :: "string list \<Rightarrow> jsval list \<Rightarrow> js_object" where
  "zip_object columns vals = zip columns vals"


section \<open>The serving layer\<close>

text \<open>
  The server keeps one module-level variable \<open>cachedData\<close>: \<open>null\<close> (here \<open>None\<close>) until
  the CSV file has been read, then the array of row objects.

  \<open>getCsvDataAsJson\<close> builds \<open>fs.createReadStream(csvFilePath).pipe(csv())\<close> and
  registers its \<open>data\<close>, \<open>end\<close> and \<open>error\<close> listeners on what \<open>pipe\<close> returns, the CSV
  transform; \<open>pipe\<close> does not forward errors, so the file stream itself has no \<open>error\<close>
  listener. While the file is read, one of three things ends the load: the file stream
  emits \<open>error\<close> (the file is missing or unreadable), the CSV transform emits \<open>error\<close>,
  or the transform emits \<open>end\<close> after the rows.
\<close>

datatype stream = ReadStream | CsvTransform

datatype load_event = Error_on stream | End "js_object list"

definition error_listeners :: "stream list" where
  "error_listeners = [CsvTransform]"

text \<open>
  An \<open>error\<close> event on a stream with a listener rejects the promise; on a stream without
  one, the event emitter throws, nothing catches it, and the Node process exits.
\<close>

datatype 'a settled = Resolved 'a | Rejected | Uncaught

definition getCsvDataAsJson :: "load_event \<Rightarrow> (js_object list) settled" where
  "getCsvDataAsJson ev =
     (case ev of
        End results \<Rightarrow> Resolved results
      | Error_on s \<Rightarrow> if s \<in> set error_listeners then Rejected else Uncaught)"

text \<open>
  \<open>loadDataAndCache\<close> stores the rows that \<open>getCsvDataAsJson\<close> resolved with, or
  \<open>null\<close> when it rejected (its comment: when loading fails, the cache is set to
  \<open>null\<close> and the API will answer with an error). The server starts to listen in the
  \<open>then\<close> of \<open>loadDataAndCache()\<close>, with the cache as the load left it; a process
  that has exited never listens.
\<close>

datatype process = Exited | Listening "js_object list option"

definition loadDataAndCache :: "load_event \<Rightarrow> process" where
  "loadDataAndCache ev =
     (case getCsvDataAsJson ev of
        Resolved results \<Rightarrow> Listening (Some results)
      | Rejected \<Rightarrow> Listening None
      | Uncaught \<Rightarrow> Exited)"

text \<open>
  The message of the error payload, as UTF-8 bytes (the source has it in Chinese:
  "the server could not load the data, retry later or check the CSV file").
\<close>

definition load_failed_message :: string where
  "load_failed_message =
    [CHR 0xE6, CHR 0x9C, CHR 0x8D, CHR 0xE5, CHR 0x8A, CHR 0xA1, CHR 0xE5, CHR 0x99, CHR 0xA8,
     CHR 0xE6, CHR 0x9C, CHR 0xAA, CHR 0xE8, CHR 0x83, CHR 0xBD, CHR 0xE6, CHR 0x88, CHR 0x90,
     CHR 0xE5, CHR 0x8A, CHR 0x9F, CHR 0xE5, CHR 0x8A, CHR 0xA0, CHR 0xE8, CHR 0xBD, CHR 0xBD,
     CHR 0xE6, CHR 0x95, CHR 0xB0, CHR 0xE6, CHR 0x8D, CHR 0xAE, CHR 0xEF, CHR 0xBC, CHR 0x8C,
     CHR 0xE8, CHR 0xAF, CHR 0xB7, CHR 0xE7, CHR 0xA8, CHR 0x8D, CHR 0xE5, CHR 0x90, CHR 0x8E,
     CHR 0xE9, CHR 0x87, CHR 0x8D, CHR 0xE8, CHR 0xAF, CHR 0x95, CHR 0xE6, CHR 0x88, CHR 0x96,
     CHR 0xE6, CHR 0xA3, CHR 0x80, CHR 0xE6, CHR 0x9F, CHR 0xA5, CHR 0x43, CHR 0x53, CHR 0x56,
     CHR 0xE6, CHR 0x96, CHR 0x87, CHR 0xE4, CHR 0xBB, CHR 0xB6]"

text \<open>
  What the handler passes to \<open>res.json\<close>: the columnar success payload of the server with
  access logging, the row payload of \<open>serverHttps.js\<close>, or the error payload.
\<close>

datatype payload =
    Success "string list" "jsval list list" nat
      \<comment> \<open>\<open>{status: "success", columns, data, count}\<close>\<close>
  | SuccessRows "js_object list" nat
      \<comment> \<open>\<open>{status: "success", data, count}\<close>, the rows as objects\<close>
  | Error string
      \<comment> \<open>\<open>{status: "error", message}\<close>\<close>

record response =
  status_code :: nat
  body :: payload

definition error_response :: response where
  "error_response = \<lparr>status_code = 500, body = Error load_failed_message\<rparr>"

text \<open>
  \<open>app.get("/api/data")\<close> of the server with access logging: \<open>cachedData &&
  cachedData.length > 0\<close> guards the columnar conversion; \<open>res.json\<close> answers with
  status 200 unless \<open>res.status(500)\<close> came first.
\<close>

definition api_data :: "js_object list option \<Rightarrow> response" where
  "api_data cachedData =
     (case cachedData of
        None \<Rightarrow> error_response
      | Some cached \<Rightarrow>
          if length cached > 0 then
            (let columns = Object_keys (cached ! 0);
                 data = map (\<lambda>row. map (\<lambda>col. get_prop row col) columns) cached
             in \<lparr>status_code = 200,
                 body = Success columns data (length cached)\<rparr>)
          else error_response)"

text \<open>\<open>app.get("/api/data")\<close> of \<open>serverHttps.js\<close>: the guard is \<open>cachedData\<close> alone.\<close>

definition api_data_rows :: "js_object list option \<Rightarrow> response" where
  "api_data_rows cachedData =
     (case cachedData of
        None \<Rightarrow> error_response
      | Some cached \<Rightarrow> \<lparr>status_code = 200, body = SuccessRows cached (length cached)\<rparr>)"


text \<open>
  A request to \<open>/api/data\<close> after start-up: the handler's answer when the server
  listens, and no answer at all (\<open>None\<close>) from a process that has exited.
\<close>

definition request_api_data :: "process \<Rightarrow> response option" where
  "request_api_data p =
     (case p of Exited \<Rightarrow> None | Listening cachedData \<Rightarrow> Some (api_data cachedData))"


section \<open>The dashboard: downsampling\<close>

text \<open>
  \<open>downsampleEven(data, target)\<close> returns \<open>data\<close> itself when it has at most \<open>target\<close>
  elements. Otherwise the loop pushes \<open>data[Math.floor(i * n / target)]\<close> for
  \<open>i = 0, ..., target - 1\<close>, and the last pushed element is overwritten with the last
  element of \<open>data\<close> when the two differ. The target is a whole number (the page takes it
  from a list of options). When nothing was pushed (\<open>target \<le> 0\<close>), \<open>out[out.length - 1]\<close>
  is \<open>out[-1]\<close>: the assignment sets a property named \<open>-1\<close> and adds no element, so
  the returned array is empty.
\<close>

definition downsampleEven :: "'a list \<Rightarrow> int \<Rightarrow> 'a list" where
  "downsampleEven data target =
     (let n = length data in
      if int n \<le> target then data
      else
        (let out = map (\<lambda>i. data ! ((i * n) div nat target)) [0..<nat target]
         in if out = [] then out
            else if out ! (length out - 1) \<noteq> data ! (n - 1)
                 then out[length out - 1 := data ! (n - 1)]
                 else out))"


section \<open>JavaScript numbers and conversions\<close>

text \<open>
  A real result at or beyond the rounding boundary of the largest double
  (\<open>2^1024 - 2^970\<close>) becomes an infinity, as IEEE 754 round-to-nearest does.
\<close>

definition overflow_bound :: real where
  "overflow_bound = real_of_int (2 ^ 1024 - 2 ^ 970)"

definition to_double :: "real \<Rightarrow> jsnum" where
  "to_double x =
     (if overflow_bound \<le> x then PInf
      else if x \<le> - overflow_bound then NInf
      else Fin x)"

definition Number_isFinite :: "jsnum \<Rightarrow> bool" where
  "Number_isFinite n = (case n of Fin x \<Rightarrow> True | _ \<Rightarrow> False)"

definition js_neg :: "jsnum \<Rightarrow> jsnum" where
  "js_neg n = (case n of Fin x \<Rightarrow> Fin (- x) | PInf \<Rightarrow> NInf | NInf \<Rightarrow> PInf | NaN \<Rightarrow> NaN)"

subsection \<open>White space\<close>

text \<open>
  Strings are UTF-8 byte lists. \<open>ws_len s\<close> is the number of bytes of the white-space
  character \<open>s\<close> starts with (0 when it starts with none): TAB, LF, VT, FF, CR, SP,
  U+00A0, U+1680, U+2000 to U+200A, U+2028, U+2029, U+202F, U+205F, U+3000, U+FEFF, the
  set that \<open>String.prototype.trim\<close> and the string-to-number conversion strip.
\<close>

definition ascii_ws :: "char \<Rightarrow> bool" where
  "ascii_ws c = (c \<in> {CHR 0x09, CHR 0x0A, CHR 0x0B, CHR 0x0C, CHR 0x0D, CHR 0x20})"

definition ws3 :: "char \<Rightarrow> char \<Rightarrow> char \<Rightarrow> bool" where
  "ws3 a b c =
     ((a = CHR 0xE1 \<and> b = CHR 0x9A \<and> c = CHR 0x80)
      \<or> (a = CHR 0xE2 \<and> b = CHR 0x80 \<and> (of_char c :: nat) \<in> {0x80..0x8A} \<union> {0xA8, 0xA9, 0xAF})
      \<or> (a = CHR 0xE2 \<and> b = CHR 0x81 \<and> c = CHR 0x9F)
      \<or> (a = CHR 0xE3 \<and> b = CHR 0x80 \<and> c = CHR 0x80)
      \<or> (a = CHR 0xEF \<and> b = CHR 0xBB \<and> c = CHR 0xBF))"

fun ws_len :: "string \<Rightarrow> nat" where
  "ws_len [] = 0"
| "ws_len [a] = (if ascii_ws a then 1 else 0)"
| "ws_len [a, b] = (if ascii_ws a then 1 else if a = CHR 0xC2 \<and> b = CHR 0xA0 then 2 else 0)"
| "ws_len (a # b # c # s) =
     (if ascii_ws a then 1 else if a = CHR 0xC2 \<and> b = CHR 0xA0 then 2
      else if ws3 a b c then 3 else 0)"

function trim_start :: "string \<Rightarrow> string" where
  "trim_start s = (if ws_len s = 0 then s else trim_start (drop (ws_len s) s))"
  by pat_completeness auto
termination
proof (relation "measure length")
  show "wf (measure length)" by simp
next
  fix s :: string
  assume "ws_len s \<noteq> 0"
  then have "s \<noteq> []" by (cases s) simp_all
  with \<open>ws_len s \<noteq> 0\<close> show "(drop (ws_len s) s, s) \<in> measure length" by simp
qed

declare trim_start.simps [simp del]

text \<open>
  The same from the end of the string, on the reversed byte list (its first byte is the
  string's last): UTF-8 is self-synchronising, so the last character is white space
  exactly when one of the byte sequences above is a suffix.
\<close>

fun ws_len_end :: "string \<Rightarrow> nat" where
  "ws_len_end [] = 0"
| "ws_len_end [a] = (if ascii_ws a then 1 else 0)"
| "ws_len_end [a, b] = (if ascii_ws a then 1 else if b = CHR 0xC2 \<and> a = CHR 0xA0 then 2 else 0)"
| "ws_len_end (a # b # c # s) =
     (if ascii_ws a then 1 else if b = CHR 0xC2 \<and> a = CHR 0xA0 then 2
      else if ws3 c b a then 3 else 0)"

function trim_start_rev :: "string \<Rightarrow> string" where
  "trim_start_rev s = (if ws_len_end s = 0 then s else trim_start_rev (drop (ws_len_end s) s))"
  by pat_completeness auto
termination
proof (relation "measure length")
  show "wf (measure length)" by simp
next
  fix s :: string
  assume "ws_len_end s \<noteq> 0"
  then have "s \<noteq> []" by (cases s) simp_all
  with \<open>ws_len_end s \<noteq> 0\<close> show "(drop (ws_len_end s) s, s) \<in> measure length" by simp
qed

declare trim_start_rev.simps [simp del]

definition trim :: "string \<Rightarrow> string" where
  "trim s = rev (trim_start_rev (rev (trim_start s)))"


subsection \<open>String to number\<close>

text \<open>
  \<open>Number(s)\<close> for a string, after ECMAScript's \<open>StringToNumber\<close>: white space is
  trimmed; the empty string is 0; \<open>0x\<close>, \<open>0o\<close> and \<open>0b\<close> introduce unsigned
  hexadecimal, octal and binary integers; otherwise an optional sign is followed by
  \<open>Infinity\<close> or by a decimal literal (digits, an optional fraction, an optional
  exponent; at least one digit before or after the point). Everything else is NaN.
\<close>

definition is_digit :: "char \<Rightarrow> bool" where
  "is_digit c = (48 \<le> (of_char c :: nat) \<and> (of_char c :: nat) \<le> 57)"

definition digit_val :: "char \<Rightarrow> nat" where
  "digit_val c = of_char c - 48"

definition digits_val :: "string \<Rightarrow> nat" where
  "digits_val ds = foldl (\<lambda>acc c. 10 * acc + digit_val c) 0 ds"

definition hex_val :: "char \<Rightarrow> nat option" where
  "hex_val c =
     (let b = (of_char c :: nat) in
      if 48 \<le> b \<and> b \<le> 57 then Some (b - 48)
      else if 97 \<le> b \<and> b \<le> 102 then Some (b - 87)
      else if 65 \<le> b \<and> b \<le> 70 then Some (b - 55)
      else None)"

text \<open>An unsigned integer in the given radix: every character a digit below the radix.\<close>

definition radix_literal :: "nat \<Rightarrow> string \<Rightarrow> jsnum" where
  "radix_literal radix ds =
     (if ds \<noteq> [] \<and> (\<forall>c \<in> set ds. case hex_val c of None \<Rightarrow> False | Some v \<Rightarrow> v < radix)
      then to_double (real (foldl (\<lambda>acc c. radix * acc + the (hex_val c)) 0 ds))
      else NaN)"

definition signed_integer :: "string \<Rightarrow> int option" where
  "signed_integer s =
     (let ds = (if s \<noteq> [] \<and> (hd s = CHR ''+'' \<or> hd s = CHR ''-'') then tl s else s) in
      if ds \<noteq> [] \<and> (\<forall>c \<in> set ds. is_digit c)
      then Some (if s \<noteq> [] \<and> hd s = CHR ''-'' then - int (digits_val ds) else int (digits_val ds))
      else None)"

text \<open>
  An unsigned decimal literal: the value is the digits of the integer and fraction part
  read as one integer, scaled by ten to the exponent less the number of fraction digits.
\<close>

definition unsigned_decimal :: "string \<Rightarrow> real option" where
  "unsigned_decimal s =
     (let ip = takeWhile is_digit s;
          r1 = dropWhile is_digit s;
          has_dot = (r1 \<noteq> [] \<and> hd r1 = CHR ''.'');
          fp = (if has_dot then takeWhile is_digit (tl r1) else []);
          r2 = (if has_dot then dropWhile is_digit (tl r1) else r1);
          ex = (if r2 = [] then Some 0
                else if hd r2 = CHR ''e'' \<or> hd r2 = CHR ''E'' then signed_integer (tl r2)
                else None)
      in if ip = [] \<and> fp = [] then None
         else case ex of
             None \<Rightarrow> None
           | Some e \<Rightarrow>
               (let m = real (digits_val (ip @ fp)); k = e - int (length fp)
                in Some (if 0 \<le> k then m * 10 ^ nat k else m / 10 ^ nat (- k))))"

definition StringToNumber :: "string \<Rightarrow> jsnum" where
  "StringToNumber str =
     (let s = trim str in
      if s = [] then Fin 0
      else if take 2 s = ''0x'' \<or> take 2 s = ''0X'' then radix_literal 16 (drop 2 s)
      else if take 2 s = ''0o'' \<or> take 2 s = ''0O'' then radix_literal 8 (drop 2 s)
      else if take 2 s = ''0b'' \<or> take 2 s = ''0B'' then radix_literal 2 (drop 2 s)
      else
        (let neg = (hd s = CHR ''-'');
             u = (if hd s = CHR ''+'' \<or> hd s = CHR ''-'' then tl s else s)
         in if u = ''Infinity'' then (if neg then NInf else PInf)
            else case unsigned_decimal u of
                None \<Rightarrow> NaN
              | Some x \<Rightarrow> to_double (if neg then - x else x)))"

text \<open>\<open>Number(v)\<close>, ECMAScript's \<open>ToNumber\<close>, on the values a cell can hold.\<close>

definition ToNumber :: "jsval \<Rightarrow> jsnum" where
  "ToNumber v =
     (case v of
        JUndefined \<Rightarrow> NaN
      | JNull \<Rightarrow> Fin 0
      | JBool b \<Rightarrow> (if b then Fin 1 else Fin 0)
      | JNum n \<Rightarrow> n
      | JStr s \<Rightarrow> StringToNumber s)"

text \<open>Truthiness (\<open>ToBoolean\<close>), which \<open>||\<close> and \<open>&&\<close> test.\<close>

definition truthy :: "jsval \<Rightarrow> bool" where
  "truthy v =
     (case v of
        JUndefined \<Rightarrow> False
      | JNull \<Rightarrow> False
      | JBool b \<Rightarrow> b
      | JNum n \<Rightarrow> (n \<noteq> Fin 0 \<and> n \<noteq> NaN)
      | JStr s \<Rightarrow> s \<noteq> [])"

definition js_or :: "jsval \<Rightarrow> jsval \<Rightarrow> jsval" where
  "js_or a b = (if truthy a then a else b)"


section \<open>Dates\<close>

text \<open>
  A valid \<open>Date\<close> is its time value, the milliseconds since 1970-01-01T00:00:00Z, at most
  \<open>8.64e15\<close> in absolute value; an invalid one (time value NaN) is \<open>None\<close>. The calendar
  getters are read in UTC: the model's browser runs in the UTC time zone.
  \<open>civil_from_days\<close> turns a day number into year, month (1 to 12) and day of the
  proleptic Gregorian calendar (by 400-year eras of 146097 days, the day of the era, the
  year of the era and the day of a year that starts in March), and \<open>days_from_civil\<close>
  back.
\<close>

definition ms_per_day :: int where
  "ms_per_day = 86400000"

definition max_time :: int where
  "max_time = 8640000000000000"

definition civil_of_month :: "int \<Rightarrow> int \<Rightarrow> int \<Rightarrow> int \<times> int \<times> int" where
  "civil_of_month y m d = (if m \<le> 2 then y + 1 else y, m, d)"

definition civil_of_day_of_year :: "int \<Rightarrow> int \<Rightarrow> int \<Rightarrow> int \<times> int \<times> int" where
  "civil_of_day_of_year y doy mp =
     civil_of_month y (if mp < 10 then mp + 3 else mp - 9) (doy - (153 * mp + 2) div 5 + 1)"

definition civil_of_year_of_era :: "int \<Rightarrow> int \<Rightarrow> int \<Rightarrow> int \<times> int \<times> int" where
  "civil_of_year_of_era era doe yoe =
     civil_of_day_of_year (yoe + era * 400)
       (doe - (365 * yoe + yoe div 4 - yoe div 100))
       ((5 * (doe - (365 * yoe + yoe div 4 - yoe div 100)) + 2) div 153)"

definition civil_of_era :: "int \<Rightarrow> int \<Rightarrow> int \<times> int \<times> int" where
  "civil_of_era era doe =
     civil_of_year_of_era era doe
       ((doe - doe div 1460 + doe div 36524 - doe div 146096) div 365)"

definition civil_from_days :: "int \<Rightarrow> int \<times> int \<times> int" where
  "civil_from_days z = civil_of_era ((z + 719468) div 146097) ((z + 719468) mod 146097)"

definition days_from_civil :: "int \<Rightarrow> int \<Rightarrow> int \<Rightarrow> int" where
  "days_from_civil y m d =
     (let y' = (if m \<le> 2 then y - 1 else y);
          era = y' div 400;
          yoe = y' mod 400;
          doy = (153 * (if m > 2 then m - 3 else m + 9) + 2) div 5 + d - 1;
          doe = yoe * 365 + yoe div 4 - yoe div 100 + doy
      in era * 146097 + doe - 719468)"

definition getFullYear :: "int \<Rightarrow> int" where
  "getFullYear t = (case civil_from_days (t div ms_per_day) of (y, m, d) \<Rightarrow> y)"

definition getMonth :: "int \<Rightarrow> int" where
  "getMonth t = (case civil_from_days (t div ms_per_day) of (y, m, d) \<Rightarrow> m - 1)"

definition getDate :: "int \<Rightarrow> int" where
  "getDate t = (case civil_from_days (t div ms_per_day) of (y, m, d) \<Rightarrow> d)"

text \<open>Day of the week, Sunday 0 to Saturday 6; 1970-01-01 was a Thursday.\<close>

definition getDay :: "int \<Rightarrow> int" where
  "getDay t = (t div ms_per_day + 4) mod 7"

subsection \<open>Numbers as decimal strings\<close>

definition digit_char :: "nat \<Rightarrow> char" where
  "digit_char k = ''0123456789'' ! k"

text \<open>\<open>pad_num w n\<close>: the last \<open>w\<close> decimal digits of \<open>n\<close>, with leading zeros.\<close>

definition pad_num :: "nat \<Rightarrow> nat \<Rightarrow> string" where
  "pad_num w n = map (\<lambda>i. digit_char ((n div 10 ^ (w - 1 - i)) mod 10)) [0..<w]"

function show_nat :: "nat \<Rightarrow> string" where
  "show_nat n = (if n < 10 then [digit_char n] else show_nat (n div 10) @ [digit_char (n mod 10)])"
  by pat_completeness auto
termination
  by (relation "measure id") auto

declare show_nat.simps [simp del]

definition show_int :: "int \<Rightarrow> string" where
  "show_int i = (if i < 0 then CHR ''-'' # show_nat (nat (- i)) else show_nat (nat i))"

text \<open>\<open>String(n).padStart(2, "0")\<close> for a whole number \<open>n\<close>.\<close>

definition padStart2 :: "int \<Rightarrow> string" where
  "padStart2 n = (let s = show_int n in replicate (2 - length s) CHR ''0'' @ s)"

text \<open>
  \<open>d.toISOString().slice(0, 10)\<close> for a valid date: the year has four digits from 0 to
  9999 and a sign and six digits otherwise, so that the first ten characters then end
  inside the month.
\<close>

definition iso_date_string :: "int \<Rightarrow> int \<Rightarrow> int \<Rightarrow> string" where
  "iso_date_string y m d =
     (if 0 \<le> y \<and> y \<le> 9999 then pad_num 4 (nat y)
      else (if y < 0 then CHR ''-'' else CHR ''+'') # pad_num 6 (nat \<bar>y\<bar>))
     @ ''-'' @ pad_num 2 (nat m) @ ''-'' @ pad_num 2 (nat d)"

definition toISOString_slice10 :: "int \<Rightarrow> string" where
  "toISOString_slice10 t =
     (case civil_from_days (t div ms_per_day) of (y, m, d) \<Rightarrow> take 10 (iso_date_string y m d))"

subsection \<open>Constructing dates\<close>

text \<open>
  \<open>TimeClip\<close>: a time value beyond \<open>8.64e15\<close> or not finite is NaN; otherwise it is
  truncated to a whole number of milliseconds.
\<close>

definition TimeClip :: "jsnum \<Rightarrow> int option" where
  "TimeClip n =
     (case n of
        Fin x \<Rightarrow>
          if \<bar>x\<bar> \<le> real_of_int max_time
          then Some (if 0 \<le> x then \<lfloor>x\<rfloor> else \<lceil>x\<rceil>)
          else None
      | _ \<Rightarrow> None)"

text \<open>
  \<open>new Date(v)\<close>. A string goes through \<open>Date.parse\<close>, of which ECMAScript fixes only
  the ISO format and leaves every other input to the engine: it is the parameter
  \<open>Date_parse\<close> (\<open>None\<close> for NaN). Every other value is converted to a number and
  clipped.
\<close>

definition new_Date :: "(string \<Rightarrow> int option) \<Rightarrow> jsval \<Rightarrow> int option" where
  "new_Date Date_parse v =
     (case v of
        JStr s \<Rightarrow>
          (case Date_parse s of
             None \<Rightarrow> None
           | Some t \<Rightarrow> if \<bar>t\<bar> \<le> max_time then Some t else None)
      | _ \<Rightarrow> TimeClip (ToNumber v))"

text \<open>
  The date-only ISO form \<open>YYYY-MM-DD\<close>, which every engine reads as midnight UTC of
  that day: the \<open>Date.parse\<close> used where a concrete one is needed. Other strings are NaN
  in this instance.
\<close>

definition days_in_month :: "int \<Rightarrow> int \<Rightarrow> int" where
  "days_in_month y m =
     (if m = 2 then (if y mod 4 = 0 \<and> (y mod 100 \<noteq> 0 \<or> y mod 400 = 0) then 29 else 28)
      else if m = 4 \<or> m = 6 \<or> m = 9 \<or> m = 11 then 30 else 31)"

definition parse_iso_date :: "string \<Rightarrow> int option" where
  "parse_iso_date s =
     (if length s = 10 \<and> s ! 4 = CHR ''-'' \<and> s ! 7 = CHR ''-''
         \<and> (\<forall>c \<in> set (take 4 s @ take 2 (drop 5 s) @ drop 8 s). is_digit c)
      then
        (let y = int (digits_val (take 4 s));
             m = int (digits_val (take 2 (drop 5 s)));
             d = int (digits_val (drop 8 s))
         in if 1 \<le> m \<and> m \<le> 12 \<and> 1 \<le> d \<and> d \<le> days_in_month y m
            then Some (days_from_civil y m d * ms_per_day)
            else None)
      else None)"


section \<open>The dashboard: parsing rows\<close>

text \<open>
  A numeric field of a parsed row holds \<open>null\<close> or a number; \<open>Undefined\<close> stands for a
  field the object does not have (an aggregated point lacks some fields of a parsed row).
\<close>

datatype cell = Undefined | Null | Num jsnum

text \<open>
  \<open>safeNum\<close>, local to \<open>parseRow\<close>: \<open>null\<close>, \<open>undefined\<close>, the empty string and the
  string \<open>"NaN"\<close> give \<open>null\<close>; otherwise \<open>Number(v)\<close> when it is finite, else \<open>null\<close>.
\<close>

definition safeNum :: "jsval \<Rightarrow> cell" where
  "safeNum v =
     (if v = JNull \<or> v = JUndefined \<or> v = JStr [] \<or> v = JStr ''NaN'' then Null
      else (let n = ToNumber v in if Number_isFinite n then Num n else Null))"

text \<open>
  A parsed row. The type of \<open>date\<close> is a parameter: \<open>parseRow\<close> builds rows whose date
  may be invalid (\<open>int option\<close>); the rows that pass the validity filter of \<open>fetchData\<close>,
  and all rows after it, carry a time value (\<open>int\<close>).
\<close>

record 'd parsed_row =
  date :: 'd
  dateStr :: jsval
  hs300_close :: cell
  shanghai_close :: cell
  hs300_ret :: cell
  hs300_turnover_log :: cell
  hs300_amplitude :: cell
  hs300_turnover_rate :: cell
  margin_total :: cell
  douyin_search :: cell
  crowding_z :: cell
  escape_index_0_100 :: cell
  escape_signal :: jsval
  escape_level :: jsval
  raw :: js_object

text \<open>The key of the date column, two Chinese characters (U+65E5 U+671F), in UTF-8.\<close>

definition date_key :: string where
  "date_key = [CHR 0xE6, CHR 0x97, CHR 0xA5, CHR 0xE6, CHR 0x9C, CHR 0x9F]"

text \<open>
  \<open>parseRow(r)\<close>. The date is read under the first key that is the date key once
  trimmed (a byte-order mark counts as white space), or under the date key itself.
\<close>

definition parseRow :: "(string \<Rightarrow> int option) \<Rightarrow> js_object \<Rightarrow> (int option) parsed_row" where
  "parseRow Date_parse r =
     (let dateKey = (case find (\<lambda>k. trim k = date_key) (Object_keys r) of
                       None \<Rightarrow> date_key
                     | Some k \<Rightarrow> k);
          dateRaw = js_or (get_prop r dateKey) (get_prop r date_key)
      in \<lparr>date = new_Date Date_parse dateRaw,
          dateStr = dateRaw,
          hs300_close = safeNum (get_prop r ''hs300_close''),
          shanghai_close = safeNum (get_prop r ''shanghai_close''),
          hs300_ret = safeNum (get_prop r ''hs300_ret''),
          hs300_turnover_log = safeNum (get_prop r ''hs300_turnover_log''),
          hs300_amplitude = safeNum (get_prop r ''hs300_amplitude''),
          hs300_turnover_rate = safeNum (get_prop r ''hs300_turnover_rate''),
          margin_total = safeNum (get_prop r ''margin_total''),
          douyin_search = safeNum (get_prop r ''douyin_search''),
          crowding_z = safeNum (get_prop r ''crowding_z''),
          escape_index_0_100 = safeNum (get_prop r ''escape_index_0_100''),
          escape_signal =
            JBool (get_prop r ''escape_signal'' = JStr ''1''
                   \<or> get_prop r ''escape_signal'' = JBool True
                   \<or> get_prop r ''escape_signal'' = JStr ''true''),
          escape_level =
            js_or (js_or (get_prop r ''escape_level'') (get_prop r ''escape_level'')) (JStr []),
          raw = r\<rparr>)"

text \<open>The same row with another value for its date.\<close>

definition with_date :: "'e \<Rightarrow> 'd parsed_row \<Rightarrow> 'e parsed_row" where
  "with_date t r =
     \<lparr>date = t, dateStr = dateStr r, hs300_close = hs300_close r,
      shanghai_close = shanghai_close r, hs300_ret = hs300_ret r,
      hs300_turnover_log = hs300_turnover_log r, hs300_amplitude = hs300_amplitude r,
      hs300_turnover_rate = hs300_turnover_rate r, margin_total = margin_total r,
      douyin_search = douyin_search r, crowding_z = crowding_z r,
      escape_index_0_100 = escape_index_0_100 r, escape_signal = escape_signal r,
      escape_level = escape_level r, raw = raw r\<rparr>"

text \<open>
  The array \<open>parsed\<close> of \<open>fetchData\<close>, which \<open>setRawData\<close> stores: every row of
  \<open>json.data\<close> parsed, the rows with an invalid date filtered out
  (\<open>r.date && !Number.isNaN(r.date.getTime())\<close>), the rest sorted by date. The sort of
  an array is stable.
\<close>

definition valid_date_row :: "(int option) parsed_row \<Rightarrow> int parsed_row option" where
  "valid_date_row r = (case date r of None \<Rightarrow> None | Some t \<Rightarrow> Some (with_date t r))"

definition fetchData_parsed ::
  "(string \<Rightarrow> int option) \<Rightarrow> js_object list \<Rightarrow> int parsed_row list" where
  "fetchData_parsed Date_parse json_data =
     sort_key date (List.map_filter valid_date_row (map (parseRow Date_parse) json_data))"


section \<open>The observation rows of the specification\<close>

text \<open>
  Following the specification's words, not the source: an observation row is keyed by a
  calendar date. Here: the row has exactly one date column, a key that reads as the date
  key once trimmed, and the cell under it is a calendar date written \<open>YYYY-MM-DD\<close>.
\<close>

definition observation_row :: "js_object \<Rightarrow> bool" where
  "observation_row r =
     (case filter (\<lambda>k. trim k = date_key) (Object_keys r) of
        [k] \<Rightarrow> (case get_prop r k of JStr s \<Rightarrow> parse_iso_date s \<noteq> None | _ \<Rightarrow> False)
      | _ \<Rightarrow> False)"


section \<open>Arithmetic on JavaScript numbers\<close>

text \<open>
  The IEEE 754 operations the dashboard uses, exact on finite values up to overflow. The
  one zero of the model is \<open>+0\<close>: where the code divides by zero, the divisor is a
  difference of equal numbers, which is \<open>+0\<close>.
\<close>

definition js_add :: "jsnum \<Rightarrow> jsnum \<Rightarrow> jsnum" where
  "js_add a b =
     (case (a, b) of
        (NaN, _) \<Rightarrow> NaN
      | (_, NaN) \<Rightarrow> NaN
      | (PInf, NInf) \<Rightarrow> NaN
      | (NInf, PInf) \<Rightarrow> NaN
      | (PInf, _) \<Rightarrow> PInf
      | (_, PInf) \<Rightarrow> PInf
      | (NInf, _) \<Rightarrow> NInf
      | (_, NInf) \<Rightarrow> NInf
      | (Fin x, Fin y) \<Rightarrow> to_double (x + y))"

definition js_sub :: "jsnum \<Rightarrow> jsnum \<Rightarrow> jsnum" where
  "js_sub a b = js_add a (js_neg b)"

text \<open>The sign of a number that is not NaN: \<open>True\<close> for negative; zero counts as positive.\<close>

definition js_negative :: "jsnum \<Rightarrow> bool" where
  "js_negative a = (case a of Fin x \<Rightarrow> x < 0 | NInf \<Rightarrow> True | _ \<Rightarrow> False)"

definition signed_inf :: "bool \<Rightarrow> jsnum" where
  "signed_inf negative = (if negative then NInf else PInf)"

definition js_mul :: "jsnum \<Rightarrow> jsnum \<Rightarrow> jsnum" where
  "js_mul a b =
     (if a = NaN \<or> b = NaN then NaN
      else case (a, b) of
          (Fin x, Fin y) \<Rightarrow> to_double (x * y)
        | _ \<Rightarrow> if a = Fin 0 \<or> b = Fin 0 then NaN
               else signed_inf (js_negative a \<noteq> js_negative b))"

definition js_div :: "jsnum \<Rightarrow> jsnum \<Rightarrow> jsnum" where
  "js_div a b =
     (if a = NaN \<or> b = NaN then NaN
      else case (a, b) of
          (Fin x, Fin y) \<Rightarrow>
            if y = 0 then (if x = 0 then NaN else signed_inf (x < 0))
            else to_double (x / y)
        | (Fin x, _) \<Rightarrow> Fin 0
        | (_, Fin y) \<Rightarrow> signed_inf (js_negative a \<noteq> js_negative b)
        | _ \<Rightarrow> NaN)"

text \<open>\<open>a < b\<close> on numbers; false when either is NaN.\<close>

definition js_less :: "jsnum \<Rightarrow> jsnum \<Rightarrow> bool" where
  "js_less a b =
     (case (a, b) of
        (NaN, _) \<Rightarrow> False
      | (_, NaN) \<Rightarrow> False
      | (Fin x, Fin y) \<Rightarrow> x < y
      | (NInf, NInf) \<Rightarrow> False
      | (NInf, _) \<Rightarrow> True
      | (_, PInf) \<Rightarrow> b \<noteq> a
      | _ \<Rightarrow> False)"

text \<open>\<open>Math.min\<close> and \<open>Math.max\<close> of two numbers: NaN when either is NaN.\<close>

definition Math_min :: "jsnum \<Rightarrow> jsnum \<Rightarrow> jsnum" where
  "Math_min a b = (if a = NaN \<or> b = NaN then NaN else if js_less b a then b else a)"

definition Math_max :: "jsnum \<Rightarrow> jsnum \<Rightarrow> jsnum" where
  "Math_max a b = (if a = NaN \<or> b = NaN then NaN else if js_less a b then b else a)"

text \<open>
  \<open>Math.min(...xs)\<close> and \<open>Math.max(...xs)\<close>: every argument converted to a number; the
  empty call gives \<open>Infinity\<close> and \<open>-Infinity\<close>.
\<close>

definition Math_min_list :: "jsval list \<Rightarrow> jsnum" where
  "Math_min_list xs = foldl (\<lambda>acc v. Math_min acc (ToNumber v)) PInf xs"

definition Math_max_list :: "jsval list \<Rightarrow> jsnum" where
  "Math_max_list xs = foldl (\<lambda>acc v. Math_max acc (ToNumber v)) NInf xs"

definition Math_log :: "jsnum \<Rightarrow> jsnum" where
  "Math_log a =
     (case a of
        Fin x \<Rightarrow> if x < 0 then NaN else if x = 0 then NInf else Fin (ln x)
      | PInf \<Rightarrow> PInf
      | _ \<Rightarrow> NaN)"

text \<open>
  \<open>Number(x.toFixed(4))\<close>: the nearest multiple of \<open>0.0001\<close>, a tie away from zero; a
  number of magnitude \<open>1e21\<close> or more, an infinity or NaN is printed and read back
  unchanged. The numbers of the model are exact: the code rounds the double nearest to the
  mean, so for a mean on a decimal tie the last digit of the code's result can differ by
  one from the result here.
\<close>

definition toFixed4 :: "jsnum \<Rightarrow> jsnum" where
  "toFixed4 a =
     (case a of
        Fin x \<Rightarrow>
          if 10 ^ 21 \<le> \<bar>x\<bar> then Fin x
          else Fin ((if x < 0 then - 1 else 1) * real_of_int \<lfloor>\<bar>x\<bar> * 10 ^ 4 + 1 / 2\<rfloor> / 10 ^ 4)
      | _ \<Rightarrow> a)"


section \<open>The dashboard: aggregation by period\<close>

datatype js_error = RangeError

text \<open>
  The key of a row's group. For \<open>week\<close> it is the ISO date of the Monday of the row's
  week (the \<open>YYYY-Wn\<close> key computed first is overwritten and has no effect);
  \<open>setDate\<close> can leave the range of valid dates, and \<open>toISOString\<close> then throws. For
  \<open>month\<close> it is \<open>YYYY-MM\<close>, for \<open>year\<close> the year, and for any other period the
  variable \<open>key\<close> stays \<open>undefined\<close> (\<open>None\<close>).
\<close>

definition period_key :: "string \<Rightarrow> int \<Rightarrow> js_error + string option" where
  "period_key period t =
     (let yy = getFullYear t; mm = getMonth t + 1 in
      if period = ''week'' then
        (let day = (getDay t + 6) mod 7;
             temp = t - day * ms_per_day
         in if \<bar>temp\<bar> \<le> max_time then Inr (Some (toISOString_slice10 temp))
            else Inl RangeError)
      else if period = ''month'' then Inr (Some (show_int yy @ ''-'' @ padStart2 mm))
      else if period = ''year'' then Inr (Some (show_int yy))
      else Inr None)"

text \<open>
  The \<open>Map\<close> from key to the array of its rows, in insertion order:
  \<open>arr = map.get(key) || []; arr.push(d); map.set(key, arr)\<close>.
\<close>

fun map_push :: "'k \<Rightarrow> 'v \<Rightarrow> ('k \<times> 'v list) list \<Rightarrow> ('k \<times> 'v list) list" where
  "map_push key d [] = [(key, [d])]"
| "map_push key d ((k, arr) # m) =
     (if k = key then (k, arr @ [d]) # m else (k, arr) # map_push key d m)"

text \<open>The first loop: it stops at the first row whose key computation throws.\<close>

fun group_rows ::
  "string \<Rightarrow> int parsed_row list \<Rightarrow> (string option \<times> int parsed_row list) list
     \<Rightarrow> js_error + (string option \<times> int parsed_row list) list" where
  "group_rows period [] m = Inr m"
| "group_rows period (d # ds) m =
     (case period_key period (date d) of
        Inl err \<Rightarrow> Inl err
      | Inr key \<Rightarrow> group_rows period ds (map_push key d m))"

text \<open>\<open>x.escape_index_0_100 || 0\<close>: the number when it is truthy, else 0.\<close>

definition cell_or_zero :: "cell \<Rightarrow> jsnum" where
  "cell_or_zero c =
     (case c of
        Num n \<Rightarrow> if n = Fin 0 \<or> n = NaN then Fin 0 else n
      | _ \<Rightarrow> Fin 0)"

definition meanEscape :: "'d parsed_row list \<Rightarrow> jsnum" where
  "meanEscape arr =
     js_div (foldl (\<lambda>s x. js_add s (cell_or_zero (escape_index_0_100 x))) (Fin 0) arr)
            (Fin (real (length arr)))"

text \<open>
  The aggregated point of a group (never empty): date, label and the listed fields of the
  group's last row, and the mean of the escape index. The fields the object literal does
  not set are \<open>undefined\<close>.
\<close>

definition aggregate_point :: "'d parsed_row list \<Rightarrow> 'd parsed_row" where
  "aggregate_point arr =
     (let last = arr ! (length arr - 1) in
      \<lparr>date = date last,
       dateStr = dateStr last,
       hs300_close = hs300_close last,
       shanghai_close = shanghai_close last,
       hs300_ret = Undefined,
       hs300_turnover_log = Undefined,
       hs300_amplitude = Undefined,
       hs300_turnover_rate = hs300_turnover_rate last,
       margin_total = margin_total last,
       douyin_search = douyin_search last,
       crowding_z = crowding_z last,
       escape_index_0_100 = Num (toFixed4 (meanEscape arr)),
       escape_signal = JUndefined,
       escape_level = JUndefined,
       raw = raw last\<rparr>)"

text \<open>
  \<open>aggregateByPeriod(data, period)\<close>: the data itself for \<open>day\<close>; otherwise one point
  per group, sorted by date (stably).
\<close>

definition aggregateByPeriod ::
  "int parsed_row list \<Rightarrow> string \<Rightarrow> js_error + int parsed_row list" where
  "aggregateByPeriod data period =
     (if period = ''day'' then Inr data
      else case group_rows period data [] of
          Inl err \<Rightarrow> Inl err
        | Inr m \<Rightarrow> Inr (sort_key date (map (\<lambda>(k, arr). aggregate_point arr) m)))"


subsection \<open>The mean the specification asks for\<close>

text \<open>
  Following the specification's words, not the source: the mean of a group computed only
  from the rows whose escape index is a number, and no value (\<open>None\<close>) for a group that
  has no such row. It is compared with \<open>meanEscape\<close> below.
\<close>

definition defined_mean :: "'d parsed_row list \<Rightarrow> jsnum option" where
  "defined_mean arr =
     (let vs = [n. Num n \<leftarrow> map escape_index_0_100 arr] in
      if vs = [] then None
      else Some (js_div (foldl js_add (Fin 0) vs) (Fin (real (length vs)))))"


section \<open>The dashboard: chart series and overlays\<close>

text \<open>
  A point of the chart series: the fields of the object literal in \<open>chartData\<close>, and the
  properties that \<open>processedChartData\<close> adds under an overlay's key.
\<close>

record chart_point =
  cp_date :: string
  escape :: cell
  cp_hs300_close :: cell
  cp_shanghai_close :: cell
  cp_raw :: js_object
  overlays :: "(string \<times> cell) list"

definition to_series :: "int parsed_row \<Rightarrow> chart_point" where
  "to_series d =
     \<lparr>cp_date = toISOString_slice10 (date d),
      escape = escape_index_0_100 d,
      cp_hs300_close = hs300_close d,
      cp_shanghai_close = shanghai_close d,
      cp_raw = raw d,
      overlays = []\<rparr>"

text \<open>\<open>chartData\<close>: aggregate by the view's period, map to the series, downsample.\<close>

definition chartData ::
  "int parsed_row list \<Rightarrow> string \<Rightarrow> int \<Rightarrow> js_error + chart_point list" where
  "chartData filtered view maxPoints =
     (case aggregateByPeriod filtered view of
        Inl err \<Rightarrow> Inl err
      | Inr agg \<Rightarrow> Inr (downsampleEven (map to_series agg) maxPoints))"

text \<open>
  An entry of \<open>OVERLAY_OPTIONS\<close>: its key, its scale and its bounds (\<open>null\<close> is
  \<open>None\<close>). The label, colour and unit of an entry are display strings and play no part
  in the computation.
\<close>

record overlay_option =
  opt_key :: string
  opt_scale :: string
  opt_minValue :: "real option"
  opt_maxValue :: "real option"

definition OVERLAY_OPTIONS :: "overlay_option list" where
  "OVERLAY_OPTIONS =
     [\<lparr>opt_key = ''hs300_close'', opt_scale = ''linear'', opt_minValue = Some 0, opt_maxValue = None\<rparr>,
      \<lparr>opt_key = ''shanghai_close'', opt_scale = ''linear'', opt_minValue = Some 0, opt_maxValue = None\<rparr>,
      \<lparr>opt_key = ''hs300_turnover_rate'', opt_scale = ''log'', opt_minValue = Some 0.1, opt_maxValue = Some 10\<rparr>,
      \<lparr>opt_key = ''margin_total'', opt_scale = ''linear'', opt_minValue = Some 0, opt_maxValue = None\<rparr>,
      \<lparr>opt_key = ''douyin_search'', opt_scale = ''linear'', opt_minValue = Some 0, opt_maxValue = None\<rparr>,
      \<lparr>opt_key = ''crowding_z'', opt_scale = ''linear'', opt_minValue = Some (- 3), opt_maxValue = Some 3\<rparr>,
      \<lparr>opt_key = ''hs300_amplitude'', opt_scale = ''linear'', opt_minValue = Some 0, opt_maxValue = Some 10\<rparr>]"

text \<open>The global \<open>isNaN(v)\<close>: the value converted to a number is NaN.\<close>

definition isNaN :: "jsval \<Rightarrow> bool" where
  "isNaN v = (ToNumber v = NaN)"

text \<open>\<open>bound || fallback\<close> for a bound that is \<open>null\<close> or a number: 0 is falsy.\<close>

definition bound_or :: "real option \<Rightarrow> jsnum \<Rightarrow> jsnum" where
  "bound_or bound fallback =
     (case bound of None \<Rightarrow> fallback | Some v \<Rightarrow> if v = 0 then fallback else Fin v)"

text \<open>\<open>bound !== null ? bound : fallback\<close>.\<close>

definition bound_else :: "real option \<Rightarrow> jsnum \<Rightarrow> jsnum" where
  "bound_else bound fallback = (case bound of None \<Rightarrow> fallback | Some v \<Rightarrow> Fin v)"

text \<open>
  The value stored under the overlay's key for a point whose raw value is \<open>rawValue\<close>,
  given the range of the raw values of the series: \<open>null\<close> for a missing raw value;
  otherwise the raw value normalised on the logarithmic or the linear scale, times 100,
  passed through \<open>Math.max(0, Math.min(100, ...))\<close>.
\<close>

definition overlay_value :: "overlay_option \<Rightarrow> jsnum \<Rightarrow> jsnum \<Rightarrow> jsval \<Rightarrow> cell" where
  "overlay_value option range_min range_max rawValue =
     (if rawValue = JNull \<or> rawValue = JUndefined \<or> isNaN rawValue then Null
      else
        (let normalizedValue =
               (if opt_scale option = ''log'' then
                  (let minVal = Math_max (bound_or (opt_minValue option) (Fin 0.1)) range_min;
                       maxVal = bound_or (opt_maxValue option) range_max
                   in js_div (js_sub (Math_log (ToNumber rawValue)) (Math_log minVal))
                             (js_sub (Math_log maxVal) (Math_log minVal)))
                else
                  (let minVal = bound_else (opt_minValue option) range_min;
                       maxVal = bound_else (opt_maxValue option) range_max
                   in js_div (js_sub (ToNumber rawValue) minVal) (js_sub maxVal minVal)))
         in Num (Math_max (Fin 0) (Math_min (Fin 100) (js_mul normalizedValue (Fin 100))))))"

text \<open>
  \<open>{...d, [overlayKey]: value}\<close>: the keys \<open>hs300_close\<close> and \<open>shanghai_close\<close> are
  fields of the point already and are overwritten; any other key is added, or overwritten
  when an earlier overlay added it.
\<close>

definition set_overlay :: "string \<Rightarrow> cell \<Rightarrow> chart_point \<Rightarrow> chart_point" where
  "set_overlay overlayKey v d =
     (if overlayKey = ''hs300_close'' then d\<lparr>cp_hs300_close := v\<rparr>
      else if overlayKey = ''shanghai_close'' then d\<lparr>cp_shanghai_close := v\<rparr>
      else d\<lparr>overlays := AList.update overlayKey v (overlays d)\<rparr>)"

text \<open>
  One round of the \<open>forEach\<close> over the selected overlays: an unknown key or a series
  without any usable raw value leaves \<open>processedData\<close> as it is. The range is taken over
  \<open>chartData\<close>, the points as they were before any overlay.
\<close>

definition apply_overlay ::
  "chart_point list \<Rightarrow> chart_point list \<Rightarrow> string \<Rightarrow> chart_point list" where
  "apply_overlay chart processedData overlayKey =
     (case find (\<lambda>opt. opt_key opt = overlayKey) OVERLAY_OPTIONS of
        None \<Rightarrow> processedData
      | Some option \<Rightarrow>
          (let values = filter (\<lambda>v. v \<noteq> JNull \<and> v \<noteq> JUndefined \<and> \<not> isNaN v)
                               (map (\<lambda>d. get_prop (cp_raw d) overlayKey) chart)
           in if values = [] then processedData
              else map (\<lambda>d. set_overlay overlayKey
                                (overlay_value option (Math_min_list values) (Math_max_list values)
                                   (get_prop (cp_raw d) overlayKey)) d)
                       processedData))"

definition processedChartData :: "chart_point list \<Rightarrow> string list \<Rightarrow> chart_point list" where
  "processedChartData chart selectedOverlays =
     (if selectedOverlays = [] then chart
      else foldl (apply_overlay chart) chart selectedOverlays)"


section \<open>The mock data generator\<close>

text \<open>The risk labels, Chinese strings in the source, in UTF-8.\<close>

definition level_extreme :: string where
  \<comment> \<open>"extremely high risk", U+6781 U+9AD8 U+98CE U+9669\<close>
  "level_extreme = [CHR 0xE6, CHR 0x9E, CHR 0x81, CHR 0xE9, CHR 0xAB, CHR 0x98,
                    CHR 0xE9, CHR 0xA3, CHR 0x8E, CHR 0xE9, CHR 0x99, CHR 0xA9]"

definition level_high :: string where
  \<comment> \<open>"high risk", U+9AD8 U+98CE U+9669\<close>
  "level_high = [CHR 0xE9, CHR 0xAB, CHR 0x98, CHR 0xE9, CHR 0xA3, CHR 0x8E,
                 CHR 0xE9, CHR 0x99, CHR 0xA9]"

definition level_medium :: string where
  \<comment> \<open>"medium risk", U+4E2D U+7B49 U+98CE U+9669\<close>
  "level_medium = [CHR 0xE4, CHR 0xB8, CHR 0xAD, CHR 0xE7, CHR 0xAD, CHR 0x89,
                   CHR 0xE9, CHR 0xA3, CHR 0x8E, CHR 0xE9, CHR 0x99, CHR 0xA9]"

definition level_low :: string where
  \<comment> \<open>"low risk", U+4F4E U+98CE U+9669\<close>
  "level_low = [CHR 0xE4, CHR 0xBD, CHR 0x8E, CHR 0xE9, CHR 0xA3, CHR 0x8E,
                CHR 0xE9, CHR 0x99, CHR 0xA9]"

definition level_very_low :: string where
  \<comment> \<open>"extremely low risk", U+6781 U+4F4E U+98CE U+9669\<close>
  "level_very_low = [CHR 0xE6, CHR 0x9E, CHR 0x81, CHR 0xE4, CHR 0xBD, CHR 0x8E,
                     CHR 0xE9, CHR 0xA3, CHR 0x8E, CHR 0xE9, CHR 0x99, CHR 0xA9]"

text \<open>
  A number that \<open>Math.random()\<close> returns: at least 0 and less than 1.
\<close>

typedef random_number = "{x :: real. 0 \<le> x \<and> x < 1}"
  morphisms random_value Abs_random_number
  by (rule exI [of _ 0]) simp

text \<open>
  One round of the loop of \<open>generateMockData\<close> for a weekday with time value \<open>t\<close>;
  \<open>random j\<close> is the \<open>j\<close>-th number that \<open>Math.random()\<close> returns in the round. The
  escape index is the sum of a yearly sine wave and of noise, clamped to the range from 0
  to 100; signal and level are read off the clamped index before it is rounded to two
  decimals.
\<close>

definition mock_escapeIndex :: "int \<Rightarrow> random_number \<Rightarrow> real" where
  "mock_escapeIndex t r =
     (let baseIndex = 30 + sin (real_of_int t / (365 * 24 * 60 * 60 * 1000) * pi * 2) * 20;
          noise = (random_value r - 0.5) * 10
      in max 0 (min 100 (baseIndex + noise)))"

definition mock_signal :: "real \<Rightarrow> string" where
  "mock_signal escapeIndex = (if escapeIndex > 70 then ''1'' else ''0'')"

definition mock_level :: "real \<Rightarrow> string" where
  "mock_level escapeIndex =
     (if escapeIndex > 80 then level_extreme
      else if escapeIndex > 60 then level_high
      else if escapeIndex > 40 then level_medium
      else level_low)"

text \<open>\<open>Math.round(x)\<close> for a finite \<open>x\<close>: the nearest integer, a tie upwards.\<close>

definition Math_round :: "real \<Rightarrow> real" where
  "Math_round x = real_of_int \<lfloor>x + 1 / 2\<rfloor>"

definition mock_row :: "int \<Rightarrow> (nat \<Rightarrow> random_number) \<Rightarrow> js_object" where
  "mock_row t random =
     (let escapeIndex = mock_escapeIndex t (random 0) in
      [(date_key, JStr (toISOString_slice10 t)),
       (''hs300_close'', JNum (Fin (3000 + random_value (random 1) * 1000))),
       (''hs300_ret'', JNum (Fin ((random_value (random 2) - 0.5) * 0.1))),
       (''hs300_turnover_log'', JNum (Math_log (Fin (1 + random_value (random 3) * 5)))),
       (''hs300_amplitude'', JNum (Fin (random_value (random 4) * 0.1))),
       (''hs300_turnover_rate'', JNum (Fin (random_value (random 5) * 5))),
       (''margin_total'', JNum (Fin (1000000 + random_value (random 6) * 500000))),
       (''douyin_search'', JNum (Fin (random_value (random 7) * 100))),
       (''crowding_z'', JNum (Fin ((random_value (random 8) - 0.5) * 2))),
       (''escape_index_0_100'', JNum (Fin (Math_round (escapeIndex * 100) / 100))),
       (''escape_signal'', JStr (mock_signal escapeIndex)),
       (''escape_level'', JStr (mock_level escapeIndex))])"

text \<open>
  \<open>generateMockData\<close>: a row for every day from 2020-01-01 to \<open>endDate\<close> (the time of
  the call) that is not a Saturday or a Sunday. A row takes nine random numbers, in the
  order of the calls.
\<close>

definition generateMockData :: "int \<Rightarrow> (nat \<Rightarrow> random_number) \<Rightarrow> js_object list" where
  "generateMockData endDate random =
     (let startDate = 1577836800000;
          n = (if endDate < startDate then 0 else nat ((endDate - startDate) div ms_per_day) + 1);
          days = filter (\<lambda>d. \<not> (getDay d = 0 \<or> getDay d = 6))
                        (map (\<lambda>k. startDate + int k * ms_per_day) [0..<n])
      in map (\<lambda>(i, d). mock_row d (\<lambda>j. random (9 * i + j))) (enumerate 0 days))"


section \<open>The statistics panel\<close>

record risk =
  level :: string
  color :: string
  bg :: string

text \<open>
  \<open>getRiskLevel(value)\<close>; the value is \<open>stats.current\<close>, the latest escape index or 0,
  a finite number.
\<close>

definition getRiskLevel :: "real \<Rightarrow> risk" where
  "getRiskLevel v =
     (if v \<ge> 80 then \<lparr>level = level_extreme, color = ''text-red-600'', bg = ''bg-red-50''\<rparr>
      else if v \<ge> 70 then \<lparr>level = level_high, color = ''text-orange-600'', bg = ''bg-orange-50''\<rparr>
      else if v \<ge> 60 then \<lparr>level = level_medium, color = ''text-yellow-600'', bg = ''bg-yellow-50''\<rparr>
      else if v \<ge> 40 then \<lparr>level = level_low, color = ''text-blue-600'', bg = ''bg-blue-50''\<rparr>
      else \<lparr>level = level_very_low, color = ''text-green-600'', bg = ''bg-green-50''\<rparr>)"


section \<open>The documented risk levels\<close>

text \<open>
  The list "risk level explanation" of the About dialog (\<open>AboutModal.jsx\<close>): four
  ranges of the index with their labels, Chinese strings in UTF-8.
\<close>

definition about_safe :: string where
  \<comment> \<open>"relatively safe", U+76F8 U+5BF9 U+5B89 U+5168\<close>
  "about_safe = [CHR 0xE7, CHR 0x9B, CHR 0xB8, CHR 0xE5, CHR 0xAF, CHR 0xB9,
                 CHR 0xE5, CHR 0xAE, CHR 0x89, CHR 0xE5, CHR 0x85, CHR 0xA8]"

definition about_alert :: string where
  \<comment> \<open>"alert", U+8B66 U+60D5\<close>
  "about_alert = [CHR 0xE8, CHR 0xAD, CHR 0xA6, CHR 0xE6, CHR 0x83, CHR 0x95]"

definition about_strong_alert :: string where
  \<comment> \<open>"strong alert", U+5F3A U+8B66 U+6212\<close>
  "about_strong_alert = [CHR 0xE5, CHR 0xBC, CHR 0xBA, CHR 0xE8, CHR 0xAD, CHR 0xA6,
                         CHR 0xE6, CHR 0x88, CHR 0x92]"

definition about_extreme_alert :: string where
  \<comment> \<open>"extreme alert", U+6781 U+5EA6 U+8B66 U+6212\<close>
  "about_extreme_alert = [CHR 0xE6, CHR 0x9E, CHR 0x81, CHR 0xE5, CHR 0xBA, CHR 0xA6,
                          CHR 0xE8, CHR 0xAD, CHR 0xA6, CHR 0xE6, CHR 0x88, CHR 0x92]"

definition about_risk_levels :: "(int \<times> int \<times> string) list" where
  "about_risk_levels =
     [(0, 59, about_safe), (60, 74, about_alert),
      (75, 84, about_strong_alert), (85, 100, about_extreme_alert)]"

text \<open>The position, from the lowest, of the documented range that holds a whole index.\<close>

definition about_tier :: "int \<Rightarrow> nat option" where
  "about_tier v =
     map_option fst
       (find (\<lambda>(i, lo, hi, l). lo \<le> v \<and> v \<le> hi) (enumerate 0 about_risk_levels))"

text \<open>
  The position, from the lowest, of the level that the statistics panel shows: its five
  levels in rising order.
\<close>

definition panel_levels :: "string list" where
  "panel_levels = [level_very_low, level_low, level_medium, level_high, level_extreme]"

definition panel_tier :: "real \<Rightarrow> nat option" where
  "panel_tier v =
     map_option fst (find (\<lambda>(i, l). l = level (getRiskLevel v)) (enumerate 0 panel_levels))"


section \<open>The classifier the specification describes\<close>


definition ordered_lookup :: "real list \<Rightarrow> 'a list \<Rightarrow> real \<Rightarrow> 'a" where
  "ordered_lookup breakpoints tiers index = tiers ! length (filter (\<lambda>b. b \<le> index) breakpoints)"


section \<open>Arrays as mutable objects\<close>

text \<open>
  To speak about two runs of the dashboard's functions one after the other, their arrays
  are placed in a store: an array is a reference, \<open>cells\<close> gives the contents of every
  reference, and the references below \<open>next_ref\<close> are the allocated ones. A function takes
  the reference of its argument and the store, and returns a reference and the store it
  leaves behind. The row objects themselves are never written by these functions and stay
  values.
\<close>

record 'a store =
  next_ref :: nat
  cells :: "nat \<Rightarrow> 'a list"

definition new_array :: "'a store \<Rightarrow> nat \<times> 'a store" where
  \<comment> \<open>\<open>const out = []\<close>\<close>
  "new_array s = (next_ref s, s\<lparr>next_ref := Suc (next_ref s), cells := (cells s)(next_ref s := [])\<rparr>)"

definition push :: "nat \<Rightarrow> 'a \<Rightarrow> 'a store \<Rightarrow> 'a store" where
  \<comment> \<open>\<open>out.push(x)\<close>\<close>
  "push out x s = s\<lparr>cells := (cells s)(out := cells s out @ [x])\<rparr>"

definition set_index :: "nat \<Rightarrow> nat \<Rightarrow> 'a \<Rightarrow> 'a store \<Rightarrow> 'a store" where
  \<comment> \<open>\<open>out[i] = x\<close> for an index inside the array\<close>
  "set_index out i x s = s\<lparr>cells := (cells s)(out := (cells s out)[i := x])\<rparr>"

text \<open>
  \<open>downsampleEven\<close> on the store: it returns the reference of \<open>data\<close> itself, or of a
  new array that the loop fills, reading \<open>data\<close> from the store at every round.
\<close>

definition downsampleEven_st :: "nat \<Rightarrow> int \<Rightarrow> 'a store \<Rightarrow> nat \<times> 'a store" where
  "downsampleEven_st data target s =
     (let n = length (cells s data) in
      if int n \<le> target then (data, s)
      else
        (let (out, s1) = new_array s;
             s2 = fold (\<lambda>i st. push out (cells st data ! ((i * n) div nat target)) st)
                       [0..<nat target] s1;
             len = length (cells s2 out)
         in if len = 0 then (out, s2)
            else if cells s2 out ! (len - 1) \<noteq> cells s2 data ! (n - 1)
                 then (out, set_index out (len - 1) (cells s2 data ! (n - 1)) s2)
                 else (out, s2)))"

text \<open>
  \<open>aggregateByPeriod\<close> on the store: the reference of \<open>data\<close> itself for \<open>day\<close>;
  otherwise the groups are collected from the contents of \<open>data\<close> (in arrays of the
  \<open>Map\<close>, which nothing else refers to), a new array receives one point per group and is
  sorted in place. When a key computation throws, no array has been written.
\<close>

definition aggregateByPeriod_st ::
  "nat \<Rightarrow> string \<Rightarrow> (int parsed_row) store \<Rightarrow> (js_error + nat) \<times> (int parsed_row) store" where
  "aggregateByPeriod_st data period s =
     (if period = ''day'' then (Inr data, s)
      else case group_rows period (cells s data) [] of
          Inl err \<Rightarrow> (Inl err, s)
        | Inr m \<Rightarrow>
            (let (out, s1) = new_array s;
                 s2 = fold (\<lambda>(k, arr) st. push out (aggregate_point arr) st) m s1;
                 s3 = s2\<lparr>cells := (cells s2)(out := sort_key date (cells s2 out))\<rparr>
             in (Inr out, s3)))"

section \<open>Properties of the serving layer\<close>

lemma prop_zip_columns:
  "map_of (zip_object cols (map (\<lambda>col. get_prop r col) cols)) k =
     (if k \<in> set cols then Some (get_prop r k) else None)"
  unfolding zip_object_def by (induction cols) auto

lemma zip_object_keys_row:
  assumes "distinct (map fst r)"
  shows "zip_object (map fst r) (map (\<lambda>col. get_prop r col) (map fst r)) = r"
proof -
  have "\<And>kv. kv \<in> set r \<Longrightarrow> get_prop r (fst kv) = snd kv"
    using assms by (auto simp: get_prop_def)
  then have "map (\<lambda>col. get_prop r col) (map fst r) = map snd r"
    by simp
  then show ?thesis
    by (simp only: zip_object_def zip_map_fst_snd)
qed

text \<open>
  The handler of the server with access logging has two outcomes: status 200 with the
  success payload exactly when the cache is not \<open>null\<close> and holds at least one row, and
  status 500 with the error payload and its message otherwise.
\<close>

lemma api_data_outcomes:
  "((\<exists>cols d n. api_data cachedData = \<lparr>status_code = 200, body = Success cols d n\<rparr>)
      \<longleftrightarrow> (\<exists>cached. cachedData = Some cached \<and> length cached > 0))
   \<and> ((\<nexists>cached. cachedData = Some cached \<and> length cached > 0)
      \<longleftrightarrow> api_data cachedData = \<lparr>status_code = 500, body = Error load_failed_message\<rparr>)
   \<and> length load_failed_message = 69"
  by (cases cachedData)
     (auto simp: api_data_def error_response_def Let_def load_failed_message_def)

text \<open>
  C10. The claim asks that a failed load is answered like an empty CSV file, with
  status 500 and the error payload, as the comments of \<open>loadDataAndCache\<close> and of the
  handler say. The code does so for an empty file and for an error of the CSV transform.
  It does otherwise when the file cannot be read: the \<open>error\<close> event of the file stream
  has no listener, the process exits before the server listens, and no request is
  answered.
\<close>

theorem failed_read_is_not_answered:
  "request_api_data (loadDataAndCache (End [])) =
     Some \<lparr>status_code = 500, body = Error load_failed_message\<rparr>
   \<and> request_api_data (loadDataAndCache (Error_on CsvTransform)) =
     Some \<lparr>status_code = 500, body = Error load_failed_message\<rparr>
   \<and> loadDataAndCache (Error_on ReadStream) = Exited
   \<and> request_api_data (loadDataAndCache (Error_on ReadStream)) = None"
  by (simp add: request_api_data_def loadDataAndCache_def getCsvDataAsJson_def
      error_listeners_def api_data_def error_response_def)

lemma data_nth:
  "i < length cached \<Longrightarrow> j < length cols \<Longrightarrow>
   map (\<lambda>row. map (\<lambda>col. get_prop row col) cols) cached ! i ! j = get_prop (cached ! i) (cols ! j)"
  by simp

lemma map_round_trip_iff:
  "map_of (zip_object cols (map (\<lambda>col. get_prop r col) cols)) = map_of r
     \<longleftrightarrow> set (Object_keys r) = set cols"
proof
  assume eq: "map_of (zip_object cols (map (\<lambda>col. get_prop r col) cols)) = map_of r"
  have "dom (map_of (zip_object cols (map (\<lambda>col. get_prop r col) cols))) = set cols"
    by (auto simp: prop_zip_columns dom_def)
  with eq show "set (Object_keys r) = set cols"
    by (simp add: dom_map_of_conv_image_fst Object_keys_def)
next
  assume keys: "set (Object_keys r) = set cols"
  show "map_of (zip_object cols (map (\<lambda>col. get_prop r col) cols)) = map_of r"
  proof
    fix k
    show "map_of (zip_object cols (map (\<lambda>col. get_prop r col) cols)) k = map_of r k"
    proof (cases "k \<in> set cols")
      case True
      then have "k \<in> fst ` set r" using keys by (simp add: Object_keys_def)
      then obtain v where "map_of r k = Some v"
        by (metis domD dom_map_of_conv_image_fst)
      then have "get_prop r k = v" by (simp add: get_prop_def)
      then show ?thesis using True \<open>map_of r k = Some v\<close> by (simp add: prop_zip_columns)
    next
      case False
      then have "k \<notin> fst ` set r" using keys by (simp add: Object_keys_def)
      then have "map_of r k = None" by (simp add: map_of_eq_None_iff)
      then show ?thesis using False by (simp add: prop_zip_columns)
    qed
  qed
qed

lemma zip_object_same_keys:
  "Object_keys r = cols \<Longrightarrow> distinct cols \<Longrightarrow>
   zip_object cols (map (\<lambda>col. get_prop r col) cols) = r"
  using zip_object_keys_row [of r] by (auto simp: Object_keys_def)

text \<open>
  The handler of \<open>serverHttps.js\<close> sends the cached rows as they are; its guard lets an
  empty table through as a success.
\<close>

lemma api_data_rows_verbatim:
  "api_data_rows (Some cached) = \<lparr>status_code = 200, body = SuccessRows cached (length cached)\<rparr>"
  "api_data_rows (Some []) = \<lparr>status_code = 200, body = SuccessRows [] 0\<rparr>"
  "api_data_rows None = error_response"
  by (simp_all add: api_data_rows_def)

text \<open>
  C2 (amended). For a cache with at least one row the payload's column list is the key
  list of the first cached row, cell \<open>j\<close> of data row \<open>i\<close> is cached row \<open>i\<close>'s value for
  column \<open>j\<close> (\<open>undefined\<close> when the row lacks that key), and the count is the number of
  cached rows. Zipping the columns with data row \<open>i\<close> gives back cached row \<open>i\<close> as a
  key-value mapping exactly when that row has the same key set as the first row, and gives
  it back with its key order when it has the same key list.
\<close>

theorem api_data_columnar:
  assumes "cachedData = Some cached" and "cached \<noteq> []"
  shows "\<exists>cols d n.
     api_data cachedData = \<lparr>status_code = 200, body = Success cols d n\<rparr>
     \<and> cols = Object_keys (cached ! 0)
     \<and> n = length cached
     \<and> length d = length cached
     \<and> (\<forall>i < length cached.
          length (d ! i) = length cols
          \<and> (\<forall>j < length cols. d ! i ! j = get_prop (cached ! i) (cols ! j))
          \<and> (map_of (zip_object cols (d ! i)) = map_of (cached ! i)
               \<longleftrightarrow> set (Object_keys (cached ! i)) = set cols)
          \<and> (Object_keys (cached ! i) = cols \<and> distinct cols
               \<longrightarrow> zip_object cols (d ! i) = cached ! i))"
proof -
  let ?cols = "Object_keys (cached ! 0)"
  let ?d = "map (\<lambda>row. map (\<lambda>col. get_prop row col) ?cols) cached"
  have resp: "api_data cachedData = \<lparr>status_code = 200, body = Success ?cols ?d (length cached)\<rparr>"
    using assms by (simp add: api_data_def Let_def)
  have rows: "length (?d ! i) = length ?cols
          \<and> (\<forall>j < length ?cols. ?d ! i ! j = get_prop (cached ! i) (?cols ! j))
          \<and> (map_of (zip_object ?cols (?d ! i)) = map_of (cached ! i)
               \<longleftrightarrow> set (Object_keys (cached ! i)) = set ?cols)
          \<and> (Object_keys (cached ! i) = ?cols \<and> distinct ?cols
               \<longrightarrow> zip_object ?cols (?d ! i) = cached ! i)" if "i < length cached" for i
  proof -
    have di: "?d ! i = map (\<lambda>col. get_prop (cached ! i) col) ?cols"
      using that by simp
    have "Object_keys (cached ! i) = ?cols \<and> distinct ?cols
               \<longrightarrow> zip_object ?cols (?d ! i) = cached ! i"
      unfolding di by (auto simp: zip_object_same_keys)
    then show ?thesis
      unfolding di by (simp add: map_round_trip_iff)
  qed
  show ?thesis
    using resp rows by (intro exI [of _ ?cols] exI [of _ ?d] exI [of _ "length cached"]) simp
qed

text \<open>
  C2 as stated fails on a table whose rows differ in their keys: \<open>csv-parser\<close> stores a
  surplus cell of a data line under the key \<open>_1\<close>, and the columnar payload, built from the
  first row's keys alone, loses it.
\<close>

theorem api_data_round_trip_counterexample:
  "api_data (Some [[(''a'', JStr ''1'')], [(''a'', JStr ''2''), (''_1'', JStr ''3'')]]) =
     \<lparr>status_code = 200, body = Success [''a''] [[JStr ''1''], [JStr ''2'']] 2\<rparr>
   \<and> zip_object [''a''] [JStr ''2''] \<noteq> [(''a'', JStr ''2''), (''_1'', JStr ''3'')]
   \<and> map_of (zip_object [''a''] [JStr ''2'']) ''_1'' \<noteq> map_of [(''a'', JStr ''2''), (''_1'', JStr ''3'')] ''_1''"
  by (simp add: api_data_def Object_keys_def get_prop_def zip_object_def)

theorem api_data_columnar_witness:
  "\<exists>d. api_data (Some [[(''a'', JStr ''1''), (''b'', JStr ''x'')], [(''a'', JStr ''2''), (''b'', JStr ''y'')]]) =
      \<lparr>status_code = 200, body = Success [''a'', ''b''] d 2\<rparr>
    \<and> zip_object [''a'', ''b''] (d ! 1) = [(''a'', JStr ''2''), (''b'', JStr ''y'')]"
  using api_data_columnar [of "Some [[(''a'', JStr ''1''), (''b'', JStr ''x'')], [(''a'', JStr ''2''), (''b'', JStr ''y'')]]"
     "[[(''a'', JStr ''1''), (''b'', JStr ''x'')], [(''a'', JStr ''2''), (''b'', JStr ''y'')]]"]
  by (auto simp: Object_keys_def)


section \<open>Properties of downsampling\<close>

lemma subseq_filter_upt:
  "sorted_wrt (<) (js :: nat list) \<Longrightarrow> \<forall>j \<in> set js. j < n \<Longrightarrow> js = filter (\<lambda>j. j \<in> set js) [0..<n]"
proof -
  assume a: "sorted_wrt (<) js" and b: "\<forall>j \<in> set js. j < n"
  have "sorted js" "distinct js" using a 
    by (auto simp: strict_sorted_iff)
  moreover have "sorted (filter (\<lambda>j. j \<in> set js) [0..<n])" "distinct (filter (\<lambda>j. j \<in> set js) [0..<n])"
    by (auto intro: sorted_wrt_filter)
  moreover have "set js = set (filter (\<lambda>j. j \<in> set js) [0..<n])" using b by auto
  ultimately show ?thesis
    using sorted_distinct_set_unique by blast
qed

lemma subseq_strict_indices:
  assumes "sorted_wrt (<) (js :: nat list)" and "\<forall>j \<in> set js. j < length xs"
  shows "subseq (map (\<lambda>j. xs ! j) js) xs"
proof -
  have "subseq js [0..<length xs]"
    using subseq_filter_upt [OF assms] by (metis subseq_filter_left)
  then have "subseq (map (\<lambda>j. xs ! j) js) (map (\<lambda>j. xs ! j) [0..<length xs])"
    by (rule subseq_map)
  then show ?thesis by (simp add: map_nth)
qed



lemma idx_step:
  assumes "0 < t" and "t < n" and "i < j"
  shows "(i * n) div t < (j * n) div (t::nat)"
proof -
  have "i * n + t \<le> Suc i * n" using assms by simp
  also have "\<dots> \<le> j * n" using assms by (intro mult_le_mono1) simp
  finally have "(i * n + t) div t \<le> (j * n) div t" by (rule div_le_mono)
  moreover have "(i * n + t) div t = (i * n) div t + 1" using assms by simp
  ultimately show ?thesis by simp
qed

lemma idx_bound:
  assumes "0 < n" and "i < t"
  shows "(i * n) div t < (n::nat)"
proof -
  have "i * n < n * t" using assms by (simp add: mult.commute)
  then show ?thesis by (rule less_mult_imp_div_less)
qed

lemma downsampleEven_indices:
  assumes "0 < t" and "t < length data"
  shows "downsampleEven data (int t) =
           map (\<lambda>j. data ! j) (map (\<lambda>i. (i * length data) div t) [0..<t - 1] @ [length data - 1])"
proof -
  let ?n = "length data"
  let ?f = "\<lambda>i. data ! ((i * ?n) div t)"
  obtain m where m: "t = Suc m" using assms by (cases t) auto
  have out: "map ?f [0..<t] = map ?f [0..<m] @ [?f m]" by (simp add: m)
  have upd: "(xs @ [x])[length xs := y] = xs @ [y]" for xs :: "'a list" and x y
    by simp
  have "(map ?f [0..<m] @ [?f m])[m := data ! (?n - 1)] = map ?f [0..<m] @ [data ! (?n - 1)]"
    using upd [of "map ?f [0..<m]"] by simp
  then have "downsampleEven data (int t) = map ?f [0..<m] @ [data ! (?n - 1)]"
    using assms unfolding downsampleEven_def Let_def nat_int out
    by (simp add: nth_append)
  then show ?thesis by (simp add: m comp_def)
qed

lemma downsample_indices_sorted:
  assumes "0 < t" and "t < n"
  shows "sorted_wrt (<) (map (\<lambda>i. (i * n) div t) [0..<t - 1] @ [n - 1])"
proof -
  have "sorted_wrt (<) (map (\<lambda>i. (i * n) div t) [0..<t - 1])"
    using assms by (simp add: sorted_wrt_iff_nth_less idx_step)
  moreover have "(i * n) div t < n - 1" if "i < t - 1" for i
  proof -
    have "(i * n) div t < ((t - 1) * n) div t" using assms that by (intro idx_step) auto
    moreover have "((t - 1) * n) div t < n" using assms by (intro idx_bound) auto
    ultimately show ?thesis by simp
  qed
  ultimately show ?thesis by (auto simp: sorted_wrt_append)
qed

text \<open>
  C6 (amended). \<open>downsampleEven\<close> returns the list itself when its length is at most the
  target. For a target of at least 1 below the length, it returns exactly \<open>target\<close>
  elements, which form a subsequence of the input (elements of the input in their original
  order, none altered or invented) that ends with the input's last element.
\<close>

theorem downsampleEven_keeps_values:
  "(int (length data) \<le> target \<longrightarrow> downsampleEven data target = data)
   \<and> (1 \<le> target \<and> target < int (length data) \<longrightarrow>
        length (downsampleEven data target) = nat target
        \<and> subseq (downsampleEven data target) data
        \<and> last (downsampleEven data target) = last data)"
proof (intro conjI impI)
  assume "int (length data) \<le> target"
  then show "downsampleEven data target = data" by (simp add: downsampleEven_def)
next
  assume a: "1 \<le> target \<and> target < int (length data)"
  define t where "t = nat target"
  have t: "0 < t" "t < length data" "target = int t" using a by (auto simp: t_def)
  let ?js = "map (\<lambda>i. (i * length data) div t) [0..<t - 1] @ [length data - 1]"
  have eq: "downsampleEven data target = map (\<lambda>j. data ! j) ?js"
    using downsampleEven_indices [OF t(1,2)] t(3) by simp
  show "length (downsampleEven data target) = nat target"
    unfolding eq using t by simp
  have "\<forall>j \<in> set ?js. j < length data"
    using t by (auto intro: idx_bound)
  then show "subseq (downsampleEven data target) data"
    unfolding eq using downsample_indices_sorted [OF t(1,2)] by (intro subseq_strict_indices)
  show "last (downsampleEven data target) = last data"
    unfolding eq using t by (cases data rule: rev_cases) auto
qed

text \<open>
  C6 as stated, for every target count, fails at target 0: no element is pushed, and the
  input's last element is not in the result.
\<close>

theorem downsampleEven_zero_target_counterexample:
  "downsampleEven [1, 2 :: nat] 0 = [] \<and> last [1, 2 :: nat] \<notin> set (downsampleEven [1, 2 :: nat] 0)"
  by (simp add: downsampleEven_def)

theorem downsampleEven_keeps_values_witness:
  "length (downsampleEven [0, 1, 2, 3, 4, 5, 6, 7, 8, 9 :: nat] 3) = 3
   \<and> subseq (downsampleEven [0, 1, 2, 3, 4, 5, 6, 7, 8, 9 :: nat] 3) [0, 1, 2, 3, 4, 5, 6, 7, 8, 9]
   \<and> last (downsampleEven [0, 1, 2, 3, 4, 5, 6, 7, 8, 9 :: nat] 3) = 9
   \<and> downsampleEven [0, 1, 2 :: nat] 3 = [0, 1, 2]"
  using downsampleEven_keeps_values [of "[0, 1, 2, 3, 4, 5, 6, 7, 8, 9 :: nat]" 3]
        downsampleEven_keeps_values [of "[0, 1, 2 :: nat]" 3]
  by simp


section \<open>Properties of the number conversion\<close>

lemma trim_start_Nil: "trim_start [] = []"
  by (simp add: trim_start.simps)

lemma trim_start_Cons:
  "trim_start (c # s) =
     (if ws_len (c # s) = 0 then c # s else trim_start (drop (ws_len (c # s)) (c # s)))"
  by (rule trim_start.simps)

lemma trim_start_rev_Nil: "trim_start_rev [] = []"
  by (simp add: trim_start_rev.simps)

lemma trim_start_rev_Cons:
  "trim_start_rev (c # s) =
     (if ws_len_end (c # s) = 0 then c # s
      else trim_start_rev (drop (ws_len_end (c # s)) (c # s)))"
  by (rule trim_start_rev.simps)

text \<open>The equations that evaluate a conversion on a literal.\<close>

lemmas number_eval =
  StringToNumber_def trim_def ascii_ws_def ws3_def unsigned_decimal_def is_digit_def
  digits_val_def digit_val_def to_double_def overflow_bound_def signed_integer_def
  ToNumber_def radix_literal_def hex_val_def Number_isFinite_def
  trim_start_Nil trim_start_Cons trim_start_rev_Nil trim_start_rev_Cons

lemma StringToNumber_examples:
  "StringToNumber ''12.5'' = Fin 12.5"
  "StringToNumber '' 7e2 '' = Fin 700"
  "StringToNumber ''abc'' = NaN"
  "StringToNumber ''-Infinity'' = NInf"
  "StringToNumber ''1e400'' = PInf"
  "StringToNumber ''0x1F'' = Fin 31"
  "StringToNumber ''.'' = NaN"
  by (simp_all add: number_eval)

text \<open>
  C9. \<open>safeNum\<close> is total and returns \<open>null\<close> or a finite number, never NaN (nor an
  infinity): \<open>null\<close>, \<open>undefined\<close>, the empty string and the string \<open>"NaN"\<close> give
  \<open>null\<close>, so does every value whose numeric conversion is not finite, and every other
  value gives its finite numeric conversion.
\<close>

theorem safeNum_finite_or_null:
  "(safeNum v = Null \<or> (\<exists>x. safeNum v = Num (Fin x)))
   \<and> safeNum v \<noteq> Num NaN
   \<and> safeNum JNull = Null \<and> safeNum JUndefined = Null
   \<and> safeNum (JStr []) = Null \<and> safeNum (JStr ''NaN'') = Null
   \<and> (\<not> Number_isFinite (ToNumber v) \<longrightarrow> safeNum v = Null)
   \<and> (v \<noteq> JNull \<and> v \<noteq> JUndefined \<and> v \<noteq> JStr [] \<and> v \<noteq> JStr ''NaN''
        \<and> Number_isFinite (ToNumber v) \<longrightarrow> safeNum v = Num (ToNumber v))"
  by (cases "ToNumber v") (auto simp: safeNum_def Number_isFinite_def Let_def)

theorem safeNum_finite_or_null_witness:
  "safeNum (JStr ''12.5'') = Num (Fin 12.5)
   \<and> safeNum (JStr ''-Infinity'') = Null
   \<and> safeNum (JStr ''abc'') = Null
   \<and> safeNum (JBool True) = Num (Fin 1)"
  using safeNum_finite_or_null [of "JStr ''12.5''"]
        safeNum_finite_or_null [of "JStr ''-Infinity''"]
        safeNum_finite_or_null [of "JStr ''abc''"]
        safeNum_finite_or_null [of "JBool True"]
  by (simp add: StringToNumber_examples ToNumber_def Number_isFinite_def)

section \<open>Evaluating dates\<close>

lemma show_nat_small: "n < 10 \<Longrightarrow> show_nat n = [digit_char n]"
  by (simp add: show_nat.simps)

lemma show_nat_large: "10 \<le> n \<Longrightarrow> show_nat n = show_nat (n div 10) @ [digit_char (n mod 10)]"
  by (subst show_nat.simps) simp

lemma pad_num_2: "pad_num 2 n = [digit_char (n div 10 mod 10), digit_char (n mod 10)]"
  by (simp add: pad_num_def upt_rec)

lemma pad_num_4:
  "pad_num 4 n = [digit_char (n div 1000 mod 10), digit_char (n div 100 mod 10),
                  digit_char (n div 10 mod 10), digit_char (n mod 10)]"
  by (simp add: pad_num_def upt_rec)

lemma pad_num_6:
  "pad_num 6 n = [digit_char (n div 100000 mod 10), digit_char (n div 10000 mod 10),
                  digit_char (n div 1000 mod 10), digit_char (n div 100 mod 10),
                  digit_char (n div 10 mod 10), digit_char (n mod 10)]"
  by (simp add: pad_num_def upt_rec)

text \<open>The equations that evaluate the date functions on literals.\<close>

lemmas date_eval =
  parse_iso_date_def days_from_civil_def civil_from_days_def civil_of_era_def
  civil_of_year_of_era_def civil_of_day_of_year_def civil_of_month_def days_in_month_def
  ms_per_day_def max_time_def getFullYear_def getMonth_def getDate_def getDay_def
  toISOString_slice10_def iso_date_string_def
  pad_num_2 pad_num_4 pad_num_6 digit_char_def show_int_def padStart2_def show_nat_small show_nat_large
  is_digit_def digits_val_def digit_val_def new_Date_def TimeClip_def period_key_def


lemma date_examples:
  "civil_from_days 0 = (1970, 1, 1)"
  "civil_from_days (days_from_civil 2024 2 29) = (2024, 2, 29)"
  "parse_iso_date ''2020-01-01'' = Some 1577836800000"
  "parse_iso_date ''2023-02-29'' = None"
  "toISOString_slice10 1577836800000 = ''2020-01-01''"
  "getDay 1577836800000 = 3"
  "period_key ''week'' 1578009600000 = Inr (Some ''2019-12-30'')"
  "period_key ''month'' 1578009600000 = Inr (Some ''2020-01'')"
  "period_key ''year'' 1578009600000 = Inr (Some ''2020'')"
  "period_key ''quarter'' 1578009600000 = Inr None"
  by (simp_all add: date_eval)


section \<open>Properties of row parsing\<close>

lemma raw_with_date [simp]: "raw (with_date t r) = raw r"
  by (simp add: with_date_def)

lemma date_with_date [simp]: "date (with_date t r) = t"
  by (simp add: with_date_def)

lemma raw_parseRow [simp]: "raw (parseRow P r) = r"
  by (simp add: parseRow_def Let_def)

lemma valid_date_row_Some:
  "valid_date_row r = Some row \<longleftrightarrow> (\<exists>t. date r = Some t \<and> row = with_date t r)"
  by (auto simp: valid_date_row_def split: option.splits)

lemma map_filter_valid_rows:
  "List.map_filter valid_date_row (map (parseRow P) json_data) =
     map (\<lambda>r. with_date (the (date (parseRow P r))) (parseRow P r))
         (filter (\<lambda>r. date (parseRow P r) \<noteq> None) json_data)"
  by (induction json_data) (auto simp: List.map_filter_simps valid_date_row_def split: option.splits)

text \<open>
  A date written \<open>YYYY-MM-DD\<close> is within the range of time values: its year is at most
  9999.
\<close>

lemma digits_val_bound:
  "\<forall>c \<in> set ds. is_digit c \<Longrightarrow> digits_val ds < 10 ^ length ds"
proof (induction ds rule: rev_induct)
  case Nil
  show ?case by (simp add: digits_val_def)
next
  case (snoc c ds)
  have "digit_val c \<le> 9" using snoc.prems by (auto simp: is_digit_def digit_val_def)
  moreover have "digits_val ds < 10 ^ length ds" using snoc by simp
  moreover have "digits_val (ds @ [c]) = 10 * digits_val ds + digit_val c"
    by (simp add: digits_val_def)
  ultimately show ?case by simp
qed

lemma days_from_civil_bound:
  assumes "0 \<le> y" "y \<le> 9999" "1 \<le> m" "m \<le> 12" "1 \<le> d" "d \<le> 31"
  shows "\<bar>days_from_civil y m d\<bar> \<le> 10000000"
proof -
  define y' where "y' = (if m \<le> 2 then y - 1 else y)"
  define mm where "mm = (if m > 2 then m - 3 else m + 9)"
  define q where "q = (153 * mm + 2) div 5"
  have y': "- 1 \<le> y'" "y' \<le> 9999" using assms by (auto simp: y'_def)
  have mm: "0 \<le> mm" "mm \<le> 11" using assms by (auto simp: mm_def)
  have era: "- 1 \<le> y' div 400" "y' div 400 \<le> 24" using y' by linarith+
  have yoe: "0 \<le> y' mod 400" "y' mod 400 < 400" by simp_all
  have q4: "0 \<le> (y' mod 400) div 4" "(y' mod 400) div 4 \<le> 99" using yoe by linarith+
  have q100: "0 \<le> (y' mod 400) div 100" "(y' mod 400) div 100 \<le> 3" using yoe by linarith+
  have q: "0 \<le> q" "q \<le> 337" using mm unfolding q_def by linarith+
  have "days_from_civil y m d =
          y' div 400 * 146097 + (y' mod 400 * 365 + (y' mod 400) div 4 - (y' mod 400) div 100 + (q + d - 1)) - 719468"
    by (simp add: days_from_civil_def Let_def y'_def mm_def q_def)
  then show ?thesis using era yoe q4 q100 q assms by linarith
qed

lemma parse_iso_date_bound:
  assumes "parse_iso_date s = Some t"
  shows "\<bar>t\<bar> \<le> max_time"
proof -
  let ?y = "int (digits_val (take 4 s))"
  let ?m = "int (digits_val (take 2 (drop 5 s)))"
  let ?d = "int (digits_val (drop 8 s))"
  have len: "length s = 10" and dig: "\<forall>c \<in> set (take 4 s @ take 2 (drop 5 s) @ drop 8 s). is_digit c"
    and md: "1 \<le> ?m" "?m \<le> 12" "1 \<le> ?d" "?d \<le> days_in_month ?y ?m"
    and t: "t = days_from_civil ?y ?m ?d * ms_per_day"
    using assms by (auto simp: parse_iso_date_def Let_def split: if_splits)
  have "digits_val (take 4 s) < 10 ^ length (take 4 s)"
    using dig by (intro digits_val_bound) auto
  then have y: "0 \<le> ?y" "?y \<le> 9999" using len by auto
  have "days_in_month ?y ?m \<le> 31" by (simp add: days_in_month_def)
  then have d: "?d \<le> 31" using md by linarith
  have "\<bar>days_from_civil ?y ?m ?d\<bar> \<le> 10000000"
    using y md d by (intro days_from_civil_bound) auto
  then show ?thesis unfolding t by (simp add: ms_per_day_def max_time_def abs_mult)
qed

lemma parse_iso_date_nonempty: "parse_iso_date s = Some t \<Longrightarrow> s \<noteq> []"
  by (auto simp: parse_iso_date_def split: if_splits)

text \<open>
  Whatever the parser of date strings, the rows that \<open>fetchData\<close> keeps are the rows
  that pass its filter, each once, each the parse of its source row, in date order.
\<close>

lemma fetchData_parsed_filter:
  "mset (map raw (fetchData_parsed P json_data)) =
     mset (filter (\<lambda>r. date (parseRow P r) \<noteq> None) json_data)
   \<and> length (fetchData_parsed P json_data) =
       length (filter (\<lambda>r. date (parseRow P r) \<noteq> None) json_data)
   \<and> (\<forall>row \<in> set (fetchData_parsed P json_data).
         date (parseRow P (raw row)) = Some (date row)
         \<and> row = with_date (date row) (parseRow P (raw row)))
   \<and> sorted (map date (fetchData_parsed P json_data))"
proof -
  let ?valid = "\<lambda>r. date (parseRow P r) \<noteq> None"
  let ?row = "\<lambda>r. with_date (the (date (parseRow P r))) (parseRow P r)"
  have out: "fetchData_parsed P json_data = sort_key date (map ?row (filter ?valid json_data))"
    by (simp add: fetchData_parsed_def map_filter_valid_rows)
  have m: "mset (fetchData_parsed P json_data) = mset (map ?row (filter ?valid json_data))"
    unfolding out by simp
  have rawmap: "map raw (map ?row (filter ?valid json_data)) = filter ?valid json_data"
    by (simp add: comp_def)
  have "mset (map raw (fetchData_parsed P json_data)) = image_mset raw (mset (fetchData_parsed P json_data))"
    by simp
  also have "\<dots> = mset (map raw (map ?row (filter ?valid json_data)))"
    unfolding m by (simp only: mset_map)
  finally have c1: "mset (map raw (fetchData_parsed P json_data)) = mset (filter ?valid json_data)"
    unfolding rawmap .
  have c2: "length (fetchData_parsed P json_data) = length (filter ?valid json_data)"
    unfolding out by simp
  have c3: "\<forall>row \<in> set (fetchData_parsed P json_data).
         date (parseRow P (raw row)) = Some (date row)
         \<and> row = with_date (date row) (parseRow P (raw row))"
  proof
    fix row assume "row \<in> set (fetchData_parsed P json_data)"
    then have "row \<in> set (map ?row (filter ?valid json_data))"
      unfolding out by simp
    then obtain r where "?valid r" and "row = ?row r" by auto
    then show "date (parseRow P (raw row)) = Some (date row)
         \<and> row = with_date (date row) (parseRow P (raw row))"
      by auto
  qed
  have c4: "sorted (map date (fetchData_parsed P json_data))"
    unfolding out by simp
  show ?thesis using c1 c2 c3 c4 by blast
qed

text \<open>The equations that evaluate the row pipeline on literals.\<close>

lemmas row_eval = fetchData_parsed_def parseRow_def valid_date_row_def with_date_def
  List.map_filter_simps Object_keys_def get_prop_def js_or_def truthy_def date_key_def
  safeNum_def Let_def

text \<open>
  The date of an observation row: \<open>parseRow\<close> finds the row's date column, and
  \<open>new Date\<close> reads its cell as the calendar date written there, for any parser of date
  strings that reads the form \<open>YYYY-MM-DD\<close> as ECMAScript prescribes.
\<close>

lemma find_filter_single:
  "filter P xs = [k] \<Longrightarrow> find P xs = Some k"
  by (induction xs) (auto split: if_splits simp: filter_empty_conv find_None_iff [symmetric])

lemma observation_row_date:
  assumes iso: "\<forall>s t. parse_iso_date s = Some t \<longrightarrow> Date_parse s = Some t"
      and obs: "observation_row r"
  shows "\<exists>s t. parse_iso_date s = Some t \<and> dateStr (parseRow Date_parse r) = JStr s
               \<and> date (parseRow Date_parse r) = Some t"
proof -
  obtain k where k: "filter (\<lambda>k. trim k = date_key) (Object_keys r) = [k]"
    using obs by (auto simp: observation_row_def split: list.splits)
  obtain s where s: "get_prop r k = JStr s" "parse_iso_date s \<noteq> None"
    using obs k by (auto simp: observation_row_def split: jsval.splits)
  obtain t where t: "parse_iso_date s = Some t" using s(2) by auto
  have f: "find (\<lambda>k. trim k = date_key) (Object_keys r) = Some k"
    using k by (rule find_filter_single)
  have raw: "js_or (get_prop r k) (get_prop r date_key) = JStr s"
    using s(1) parse_iso_date_nonempty [OF t] by (simp add: js_or_def truthy_def)
  have "Date_parse s = Some t" using iso t by blast
  then have "new_Date Date_parse (JStr s) = Some t"
    using parse_iso_date_bound [OF t] by (simp add: new_Date_def)
  then show ?thesis using t by (simp add: parseRow_def f raw)
qed

lemma dateStr_with_date [simp]: "dateStr (with_date t r) = dateStr r"
  by (simp add: with_date_def)

lemma chartData_day:
  "int (length rows) \<le> maxPoints \<Longrightarrow> chartData rows ''day'' maxPoints = Inr (map to_series rows)"
  by (simp add: chartData_def aggregateByPeriod_def downsampleEven_def)

text \<open>
  C7. The table that \<open>fetchData\<close> builds from the rows of the response has exactly one
  row for every input observation row: for input rows that are all observation rows (each
  with one date column holding a calendar date), whatever else is missing from them, it
  has as many rows as the input; its rows' source rows are the input rows, each exactly
  once; every row is the parse of its source row (a missing value being \<open>null\<close>) under
  the date written in the source row; and the rows are in date order. In the day view, a
  chart of at most \<open>maxPoints\<close> rows then shows one point for every row.
\<close>

theorem fetchData_parsed_keeps_observation_rows:
  assumes "\<forall>s t. parse_iso_date s = Some t \<longrightarrow> Date_parse s = Some t"
      and "\<forall>r \<in> set json_data. observation_row r"
  shows "length (fetchData_parsed Date_parse json_data) = length json_data
   \<and> mset (map raw (fetchData_parsed Date_parse json_data)) = mset json_data
   \<and> (\<forall>row \<in> set (fetchData_parsed Date_parse json_data).
         row = with_date (date row) (parseRow Date_parse (raw row))
         \<and> (\<exists>s. dateStr row = JStr s \<and> parse_iso_date s = Some (date row)))
   \<and> sorted (map date (fetchData_parsed Date_parse json_data))
   \<and> (int (length json_data) \<le> maxPoints \<longrightarrow>
        chartData (fetchData_parsed Date_parse json_data) ''day'' maxPoints
          = Inr (map to_series (fetchData_parsed Date_parse json_data)))"
proof -
  let ?out = "fetchData_parsed Date_parse json_data"
  let ?valid = "\<lambda>r. date (parseRow Date_parse r) \<noteq> None"
  note f = fetchData_parsed_filter [of Date_parse json_data]
  have "\<forall>r \<in> set json_data. ?valid r"
    using observation_row_date [OF assms(1)] assms(2) by fastforce
  then have all: "filter ?valid json_data = json_data" by (simp add: filter_id_conv)
  have "length ?out = length (filter ?valid json_data)" using f by blast
  then have c1: "length ?out = length json_data" by (simp only: all)
  have "mset (map raw ?out) = mset (filter ?valid json_data)" using f by blast
  then have c2: "mset (map raw ?out) = mset json_data" by (simp only: all)
  have c3: "\<forall>row \<in> set ?out. row = with_date (date row) (parseRow Date_parse (raw row))
         \<and> (\<exists>s. dateStr row = JStr s \<and> parse_iso_date s = Some (date row))"
  proof
    fix row assume row: "row \<in> set ?out"
    then have p: "date (parseRow Date_parse (raw row)) = Some (date row)"
      and w: "row = with_date (date row) (parseRow Date_parse (raw row))"
      using f by blast+
    have "raw row \<in> set (map raw ?out)" using row by simp
    then have "raw row \<in> set json_data" using c2 by (metis mset_eq_setD)
    then have "observation_row (raw row)" using assms(2) by blast
    then obtain s t where st: "parse_iso_date s = Some t"
        "dateStr (parseRow Date_parse (raw row)) = JStr s"
        "date (parseRow Date_parse (raw row)) = Some t"
      using observation_row_date [OF assms(1)] by blast
    have "dateStr row = dateStr (parseRow Date_parse (raw row))"
      by (subst w) simp
    then have "dateStr row = JStr s \<and> parse_iso_date s = Some (date row)"
      using st p by simp
    then show "row = with_date (date row) (parseRow Date_parse (raw row))
         \<and> (\<exists>s. dateStr row = JStr s \<and> parse_iso_date s = Some (date row))"
      using w by blast
  qed
  have c4: "sorted (map date ?out)" using f by blast
  have c5: "int (length json_data) \<le> maxPoints \<longrightarrow>
        chartData ?out ''day'' maxPoints = Inr (map to_series ?out)"
    using chartData_day [of ?out maxPoints] c1 by simp
  show ?thesis using c1 c2 c3 c4 c5 by blast
qed

theorem fetchData_parsed_keeps_observation_rows_witness:
  "length (fetchData_parsed parse_iso_date
     [[(date_key, JStr ''2020-01-02''), (''hs300_close'', JStr ''4152.24''), (''douyin_search'', JStr ''12''), (''escape_index_0_100'', JStr ''41.5'')],
      [(date_key, JStr ''2020-01-03''), (''hs300_close'', JStr ''4144.96''), (''douyin_search'', JStr ''''), (''escape_index_0_100'', JStr ''42'')],
      [(date_key, JStr ''2020-01-06''), (''hs300_close'', JStr ''4129.3''), (''douyin_search'', JStr ''13''), (''escape_index_0_100'', JStr '''')]]) = 3
   \<and> map douyin_search (fetchData_parsed parse_iso_date
     [[(date_key, JStr ''2020-01-02''), (''hs300_close'', JStr ''4152.24''), (''douyin_search'', JStr ''12''), (''escape_index_0_100'', JStr ''41.5'')],
      [(date_key, JStr ''2020-01-03''), (''hs300_close'', JStr ''4144.96''), (''douyin_search'', JStr ''''), (''escape_index_0_100'', JStr ''42'')],
      [(date_key, JStr ''2020-01-06''), (''hs300_close'', JStr ''4129.3''), (''douyin_search'', JStr ''13''), (''escape_index_0_100'', JStr '''')]])
       = [Num (Fin 12), Null, Num (Fin 13)]
   \<and> map escape_index_0_100 (fetchData_parsed parse_iso_date
     [[(date_key, JStr ''2020-01-02''), (''hs300_close'', JStr ''4152.24''), (''douyin_search'', JStr ''12''), (''escape_index_0_100'', JStr ''41.5'')],
      [(date_key, JStr ''2020-01-03''), (''hs300_close'', JStr ''4144.96''), (''douyin_search'', JStr ''''), (''escape_index_0_100'', JStr ''42'')],
      [(date_key, JStr ''2020-01-06''), (''hs300_close'', JStr ''4129.3''), (''douyin_search'', JStr ''13''), (''escape_index_0_100'', JStr '''')]])
       = [Num (Fin (83 / 2)), Num (Fin 42), Null]"
proof -
  let ?rows = "[[(date_key, JStr ''2020-01-02''), (''hs300_close'', JStr ''4152.24''), (''douyin_search'', JStr ''12''), (''escape_index_0_100'', JStr ''41.5'')],
      [(date_key, JStr ''2020-01-03''), (''hs300_close'', JStr ''4144.96''), (''douyin_search'', JStr ''''), (''escape_index_0_100'', JStr ''42'')],
      [(date_key, JStr ''2020-01-06''), (''hs300_close'', JStr ''4129.3''), (''douyin_search'', JStr ''13''), (''escape_index_0_100'', JStr '''')]]"
  have obs: "\<forall>r \<in> set ?rows. observation_row r"
    by (simp add: observation_row_def Object_keys_def get_prop_def date_key_def
      date_eval trim_def trim_start_Nil trim_start_Cons trim_start_rev_Nil trim_start_rev_Cons
      ascii_ws_def ws3_def Let_def)
  have "length (fetchData_parsed parse_iso_date ?rows) = length ?rows"
    using fetchData_parsed_keeps_observation_rows [of parse_iso_date ?rows 800] obs by blast
  then have len: "length (fetchData_parsed parse_iso_date ?rows) = 3" by simp
  have cells: "map douyin_search (fetchData_parsed parse_iso_date ?rows) = [Num (Fin 12), Null, Num (Fin 13)]
     \<and> map escape_index_0_100 (fetchData_parsed parse_iso_date ?rows) = [Num (Fin (83 / 2)), Num (Fin 42), Null]"
    by (simp add: row_eval date_eval number_eval)
  show ?thesis using len cells by blast
qed

text \<open>
  A row whose date cell is empty is not an observation row, and \<open>fetchData\<close> drops
  it: of these 3 rows, 2 are kept.
\<close>

lemma fetchData_parsed_drops_undated:
  "length (fetchData_parsed parse_iso_date
     [[(date_key, JStr ''2020-01-02''), (''douyin_search'', JStr ''12''), (''escape_index_0_100'', JStr ''41.5'')],
      [(date_key, JStr ''2020-01-03''), (''douyin_search'', JStr ''''), (''escape_index_0_100'', JStr ''42'')],
      [(date_key, JStr ''''), (''douyin_search'', JStr ''13''), (''escape_index_0_100'', JStr ''43'')]]) = 2"
  by (simp add: row_eval date_eval number_eval)


text \<open>
  The rows of the columnar payload are arrays (their keys are the indices): none has a date
  under the date key, and the dashboard keeps none of them.
\<close>

lemma fetchData_parsed_columnar_rows:
  "fetchData_parsed parse_iso_date
     [[(''0'', JStr ''2020-01-02''), (''1'', JStr ''41.5'')],
      [(''0'', JStr ''2020-01-03''), (''1'', JStr ''42'')]] = []"
  by (simp add: row_eval date_eval number_eval)

section \<open>Properties of the aggregation\<close>

text \<open>The equations that evaluate an aggregation on literals.\<close>

lemmas aggregate_eval =
  aggregateByPeriod_def aggregate_point_def meanEscape_def cell_or_zero_def
  js_add_def js_div_def toFixed4_def to_double_def overflow_bound_def signed_inf_def

lemma parsed_two_rows:
  "fetchData_parsed parse_iso_date
       [[(date_key, JStr ''2020-01-02''), (''escape_index_0_100'', JStr ''50'')],
        [(date_key, JStr ''2020-01-03''), (''escape_index_0_100'', JStr '''')]] = 
   [\<lparr>date = 1577923200000, dateStr = JStr ''2020-01-02'', hs300_close = Null,
     shanghai_close = Null, hs300_ret = Null, hs300_turnover_log = Null,
     hs300_amplitude = Null, hs300_turnover_rate = Null,
     margin_total = Null, douyin_search = Null, crowding_z = Null,
     escape_index_0_100 = Num (Fin 50), escape_signal = JBool False,
     escape_level = JStr [],
     raw = [(date_key, JStr ''2020-01-02''), (''escape_index_0_100'', JStr ''50'')]\<rparr>,
    \<lparr>date = 1578009600000, dateStr = JStr ''2020-01-03'', hs300_close = Null,
     shanghai_close = Null, hs300_ret = Null, hs300_turnover_log = Null,
     hs300_amplitude = Null, hs300_turnover_rate = Null,
     margin_total = Null, douyin_search = Null, crowding_z = Null,
     escape_index_0_100 = Null, escape_signal = JBool False,
     escape_level = JStr [],
     raw = [(date_key, JStr ''2020-01-03''), (''escape_index_0_100'', JStr '''')]\<rparr>]"
  by (simp add: row_eval date_eval number_eval)

text \<open>
  C1. The claim asks that a row whose escape index is missing contributes no value to the
  aggregated escape index of its group. The code does otherwise: in a month with the rows
  50 and missing, \<open>aggregateByPeriod\<close> shows 25 (the missing value counted as 0 and the
  sum divided by 2), where the mean of the defined values is 50; and a month whose only
  row has no escape index is shown as 0, not as missing.
\<close>

theorem aggregateByPeriod_counts_missing_as_zero:
  "map_sum id (map escape_index_0_100)
     (aggregateByPeriod
        (fetchData_parsed parse_iso_date
          [[(date_key, JStr ''2020-01-02''), (''escape_index_0_100'', JStr ''50'')],
           [(date_key, JStr ''2020-01-03''), (''escape_index_0_100'', JStr '''')]])
        ''month'')
     = Inr [Num (Fin 25)]
   \<and> defined_mean
        (fetchData_parsed parse_iso_date
          [[(date_key, JStr ''2020-01-02''), (''escape_index_0_100'', JStr ''50'')],
           [(date_key, JStr ''2020-01-03''), (''escape_index_0_100'', JStr '''')]])
     = Some (Fin 50)
   \<and> map_sum id (map escape_index_0_100)
     (aggregateByPeriod
        (fetchData_parsed parse_iso_date
          [[(date_key, JStr ''2020-01-03''), (''escape_index_0_100'', JStr '''')]])
        ''month'')
     = Inr [Num (Fin 0)]"
  unfolding parsed_two_rows
  by (simp add: row_eval date_eval number_eval aggregate_eval defined_mean_def)


section \<open>Properties of the overlays\<close>

text \<open>The equations that evaluate the chart series and its overlays on literals.\<close>

lemmas overlay_eval =
  chartData_def to_series_def downsampleEven_def processedChartData_def apply_overlay_def
  OVERLAY_OPTIONS_def overlay_value_def set_overlay_def isNaN_def bound_or_def bound_else_def
  Math_min_list_def Math_max_list_def Math_min_def Math_max_def js_less_def js_sub_def
  js_neg_def js_mul_def js_negative_def

text \<open>
  C5. The claim asks that every overlay value added to the chart series is \<open>null\<close> or
  lies in the range from 0 to 100. The code does otherwise when all raw values of the
  overlay are equal to the lower bound of its scale: for a window of rows whose
  \<open>douyin_search\<close> cell is empty, the range is from 0 to 0, the normalised value is
  \<open>0 / 0\<close>, and \<open>Math.max(0, Math.min(100, NaN))\<close> stores NaN under the overlay's key.
\<close>

theorem processedChartData_overlay_NaN:
  "map_sum id (\<lambda>chart. map overlays (processedChartData chart [''douyin_search'']))
     (chartData
        (fetchData_parsed parse_iso_date
          [[(date_key, JStr ''2020-01-02''), (''escape_index_0_100'', JStr ''41.5''),
            (''douyin_search'', JStr '''')],
           [(date_key, JStr ''2020-01-03''), (''escape_index_0_100'', JStr ''42''),
            (''douyin_search'', JStr '''')]])
        ''day'' 800)
   = Inr [[(''douyin_search'', Num NaN)], [(''douyin_search'', Num NaN)]]"
  by (simp add: row_eval date_eval number_eval aggregate_eval overlay_eval)

text \<open>
  What the clamp does achieve: an overlay value is \<open>null\<close>, NaN, or a number from 0 to
  100; and the escape index of a generated row is a number from 0 to 100.
\<close>

lemma clamp_overlay:
  "Math_max (Fin 0) (Math_min (Fin 100) y) = NaN
   \<or> (\<exists>x. Math_max (Fin 0) (Math_min (Fin 100) y) = Fin x \<and> 0 \<le> x \<and> x \<le> 100)"
  by (cases y) (auto simp: Math_max_def Math_min_def js_less_def)

lemma overlay_value_range:
  "overlay_value option range_min range_max rawValue = Null
   \<or> overlay_value option range_min range_max rawValue = Num NaN
   \<or> (\<exists>x. overlay_value option range_min range_max rawValue = Num (Fin x) \<and> 0 \<le> x \<and> x \<le> 100)"
  unfolding overlay_value_def Let_def using clamp_overlay by auto


section \<open>Properties of the generated signal and of the risk tiers\<close>

lemma random_value_range: "0 \<le> random_value r \<and> random_value r < 1"
  using random_value [of r] by simp

text \<open>
  The sine wave stays between 10 and 50 and the noise between -5 and 5, so the clamp never
  acts: every generated escape index is at least 5 and less than 55.
\<close>

lemma mock_escapeIndex_range: "5 \<le> mock_escapeIndex t r \<and> mock_escapeIndex t r < 55"
proof -
  define w where "w = sin (real_of_int t / (365 * 24 * 60 * 60 * 1000) * pi * 2)"
  have w: "- 1 \<le> w" "w \<le> 1" by (simp_all add: w_def)
  have v: "0 \<le> random_value r" "random_value r < 1" using random_value_range [of r] by simp_all
  have e: "mock_escapeIndex t r = max 0 (min 100 (30 + w * 20 + (random_value r - 0.5) * 10))"
    by (simp add: mock_escapeIndex_def Let_def w_def)
  show ?thesis unfolding e using w v by (auto simp: max_def min_def)
qed

lemma round_range:
  assumes "0 \<le> e" and "e \<le> (100::real)"
  shows "0 \<le> Math_round (e * 100) / 100 \<and> Math_round (e * 100) / 100 \<le> 100"
proof -
  have "0 \<le> \<lfloor>e * 100 + 1 / 2\<rfloor>" using assms by simp
  moreover have "\<lfloor>e * 100 + 1 / 2\<rfloor> \<le> 10000"
  proof -
    have "e * 100 + 1 / 2 < 10001" using assms by simp
    then have "\<lfloor>e * 100 + 1 / 2\<rfloor> < 10001" by (simp add: floor_less_iff)
    then show ?thesis by simp
  qed
  ultimately show ?thesis by (simp add: Math_round_def)
qed


lemma mock_row_index:
  "get_prop (mock_row t random) ''escape_index_0_100'' =
     JNum (Fin (Math_round (mock_escapeIndex t (random 0) * 100) / 100))"
  by (simp add: mock_row_def get_prop_def Let_def date_key_def)

lemma mock_row_index_range:
  "\<exists>x. get_prop (mock_row t random) ''escape_index_0_100'' = JNum (Fin x) \<and> 0 \<le> x \<and> x \<le> 100"
proof -
  have "0 \<le> mock_escapeIndex t (random 0)" "mock_escapeIndex t (random 0) \<le> 100"
    using mock_escapeIndex_range [of t "random 0"] by simp_all
  then show ?thesis
    unfolding mock_row_index using round_range by blast
qed


section \<open>Properties of the generated signal and of the risk tiers\<close>


lemma mock_row_level:
  "get_prop (mock_row t random) ''escape_level'' = JStr (mock_level (mock_escapeIndex t (random 0)))"
  by (simp add: mock_row_def get_prop_def Let_def date_key_def)



lemma level_distinct:
  "level_extreme \<noteq> level_high" "level_extreme \<noteq> level_medium" "level_extreme \<noteq> level_low"
  "level_extreme \<noteq> level_very_low" "level_high \<noteq> level_medium" "level_high \<noteq> level_low"
  "level_high \<noteq> level_very_low" "level_medium \<noteq> level_low" "level_medium \<noteq> level_very_low"
  "level_low \<noteq> level_very_low"
  by (simp_all add: level_extreme_def level_high_def level_medium_def level_low_def level_very_low_def)

text \<open>
  What the statistics panel computes: an ordered lookup of the index against the
  breakpoints 40, 60, 70 and 80, a breakpoint belonging to the tier above it.
\<close>

lemma getRiskLevel_breakpoints:
  "level (getRiskLevel v) = ordered_lookup [40, 60, 70, 80] panel_levels v"
  "v < 40 \<Longrightarrow> level (getRiskLevel v) = level_very_low"
  "80 \<le> v \<Longrightarrow> level (getRiskLevel v) = level_extreme"
  by (simp_all add: getRiskLevel_def ordered_lookup_def panel_levels_def)

text \<open>
  C4. The claim asks that the index 83 falls in the tier from 75 up to 85, below the
  highest tier, as the About dialog documents it (75 to 84 "strong alert", 85 to 100
  "extreme alert"). The code does otherwise: \<open>getRiskLevel\<close> compares with 80 and puts
  83 in its highest tier, "extremely high risk". The index 39 is in the lowest tier for
  the claim, the dialog and the panel alike.
\<close>

theorem getRiskLevel_83_is_top_tier:
  "level (getRiskLevel 83) = level_extreme
   \<and> panel_tier 83 = Some 4
   \<and> length panel_levels = 5
   \<and> ordered_lookup [40, 60, 75, 85] [0, 1, 2, 3, 4 :: nat] 83 = 3
   \<and> about_tier 83 = Some 2
   \<and> about_tier 85 = Some 3
   \<and> length about_risk_levels = 4
   \<and> level (getRiskLevel 39) = level_very_low
   \<and> panel_tier 39 = Some 0
   \<and> ordered_lookup [40, 60, 75, 85] [0, 1, 2, 3, 4 :: nat] 39 = 0
   \<and> about_tier 39 = Some 0"
  by (simp add: getRiskLevel_def panel_tier_def panel_levels_def ordered_lookup_def
      about_tier_def about_risk_levels_def level_distinct level_distinct [symmetric])


section \<open>Two runs on the same input\<close>

lemma fold_push_cells:
  "cells (fold (\<lambda>i st. push out (g (cells st) i) st) js st0) =
     (cells st0)(out := cells st0 out @ map (g (cells st0)) js)"
  if "\<And>c xs i. g (c(out := xs)) i = g c i"
  using that
proof (induction js arbitrary: st0)
  case Nil
  show ?case by simp
next
  case (Cons j js)
  let ?F = "\<lambda>i st. push out (g (cells st) i) st"
  let ?st1 = "push out (g (cells st0) j) st0"
  have c1: "cells ?st1 = (cells st0)(out := cells st0 out @ [g (cells st0) j])"
    by (simp add: push_def)
  have g: "g (cells ?st1) = g (cells st0)"
    unfolding c1 by (rule ext) (simp add: Cons.prems)
  have "cells (fold ?F (j # js) st0) = cells (fold ?F js ?st1)"
    by simp
  also have "\<dots> = (cells ?st1)(out := cells ?st1 out @ map (g (cells ?st1)) js)"
    by (rule Cons.IH [OF Cons.prems])
  also have "\<dots> = (cells st0)(out := cells st0 out @ map (g (cells st0)) (j # js))"
    unfolding g unfolding c1 by simp
  finally show ?case .
qed

lemma fold_push_next_ref:
  "next_ref (fold (\<lambda>i st. push out (g st i) st) js st0) = next_ref st0"
  by (induction js arbitrary: st0) (simp_all add: push_def)

lemma downsampleEven_st_refines:
  assumes "data < next_ref s"
  shows "cells (snd (downsampleEven_st data target s)) (fst (downsampleEven_st data target s))
           = downsampleEven (cells s data) target
         \<and> (\<forall>q < next_ref s. cells (snd (downsampleEven_st data target s)) q = cells s q)
         \<and> next_ref s \<le> next_ref (snd (downsampleEven_st data target s))
         \<and> fst (downsampleEven_st data target s) < next_ref (snd (downsampleEven_st data target s))"
proof (cases "int (length (cells s data)) \<le> target")
  case True
  then show ?thesis using assms by (simp add: downsampleEven_st_def downsampleEven_def)
next
  case False
  let ?n = "length (cells s data)"
  let ?out = "next_ref s"
  let ?s1 = "s\<lparr>next_ref := Suc (next_ref s), cells := (cells s)(next_ref s := [])\<rparr>"
  let ?g = "\<lambda>c i. c data ! ((i * ?n) div nat target)"
  let ?s2 = "fold (\<lambda>i st. push ?out (?g (cells st) i) st) [0..<nat target] ?s1"
  have ne: "?out \<noteq> data" using assms by simp
  have c2: "cells ?s2 = (cells s)(?out := map (?g (cells s)) [0..<nat target])"
    using ne by (subst fold_push_cells) (auto simp: fun_upd_def)
  have n2: "next_ref ?s2 = Suc (next_ref s)"
    by (simp add: fold_push_next_ref)
  have d2: "cells ?s2 data = cells s data" using ne by (simp add: c2)
  have o2: "cells ?s2 ?out = map (?g (cells s)) [0..<nat target]" by (simp add: c2)
  have unfold: "downsampleEven_st data target s =
     (if length (cells ?s2 ?out) = 0 then (?out, ?s2)
      else if cells ?s2 ?out ! (length (cells ?s2 ?out) - 1) \<noteq> cells ?s2 data ! (?n - 1)
           then (?out, set_index ?out (length (cells ?s2 ?out) - 1) (cells ?s2 data ! (?n - 1)) ?s2)
           else (?out, ?s2))"
    using False by (simp add: downsampleEven_st_def new_array_def Let_def)
  show ?thesis
    unfolding unfold d2 o2 using False ne
    by (auto simp: downsampleEven_def Let_def set_index_def c2 n2)
qed


lemma aggregateByPeriod_st_refines:
  assumes "data < next_ref s"
  shows "(case fst (aggregateByPeriod_st data period s) of
            Inl err \<Rightarrow> aggregateByPeriod (cells s data) period = Inl err
          | Inr r \<Rightarrow> aggregateByPeriod (cells s data) period
                       = Inr (cells (snd (aggregateByPeriod_st data period s)) r)
                     \<and> r < next_ref (snd (aggregateByPeriod_st data period s)))
         \<and> (\<forall>q < next_ref s. cells (snd (aggregateByPeriod_st data period s)) q = cells s q)
         \<and> next_ref s \<le> next_ref (snd (aggregateByPeriod_st data period s))"
proof (cases "period = ''day''")
  case True
  then show ?thesis using assms by (simp add: aggregateByPeriod_st_def aggregateByPeriod_def)
next
  case notday: False
  show ?thesis
  proof (cases "group_rows period (cells s data) []")
    case (Inl err)
    then show ?thesis
      using notday by (simp add: aggregateByPeriod_st_def aggregateByPeriod_def)
  next
    case (Inr m)
    let ?out = "next_ref s"
    let ?s1 = "s\<lparr>next_ref := Suc (next_ref s), cells := (cells s)(next_ref s := [])\<rparr>"
    let ?h = "\<lambda>x. case x of (k, arr) \<Rightarrow> aggregate_point arr"
    let ?F = "\<lambda>x st. push ?out (?h x) st"
    let ?s2 = "fold ?F m ?s1"
    have F: "(\<lambda>(k, arr) st. push ?out (aggregate_point arr) st) = ?F"
      by (simp add: fun_eq_iff split_def)
    have c2: "cells ?s2 = (cells s)(?out := map ?h m)"
      using fold_push_cells [of "\<lambda>c x. ?h x" ?out m ?s1] by simp
    have n2: "next_ref ?s2 = Suc (next_ref s)"
      using fold_push_next_ref [of ?out "\<lambda>st x. ?h x" m ?s1] by simp
    have res: "aggregateByPeriod_st data period s =
                 (Inr ?out, ?s2\<lparr>cells := (cells ?s2)(?out := sort_key date (cells ?s2 ?out))\<rparr>)"
      using notday Inr by (simp add: aggregateByPeriod_st_def new_array_def Let_def F)
    have pure: "aggregateByPeriod (cells s data) period = Inr (sort_key date (map ?h m))"
      using notday Inr by (simp add: aggregateByPeriod_def)
    show ?thesis
      unfolding res pure by (simp add: c2 n2)
  qed
qed

text \<open>
  A run leaves no state behind that the next one reads: \<open>downsampleEven\<close> and
  \<open>aggregateByPeriod\<close>, run twice in a row on the same array of the store, whatever
  else the store holds, return arrays of equal contents (what the functions compute from
  the contents of their argument), the second run leaves the array returned by the first
  as it was, and neither writes to the input array.
\<close>

lemma second_run_repeats_first:
  "(data < next_ref s \<longrightarrow>
      (case downsampleEven_st data target s of (r1, s1) \<Rightarrow>
         case downsampleEven_st data target s1 of (r2, s2) \<Rightarrow>
           cells s2 r2 = cells s1 r1
           \<and> cells s1 r1 = downsampleEven (cells s data) target
           \<and> cells s2 r1 = cells s1 r1
           \<and> cells s2 data = cells s data))
   \<and> (rows < next_ref st \<longrightarrow>
      (case aggregateByPeriod_st rows period st of (a1, st1) \<Rightarrow>
         case aggregateByPeriod_st rows period st1 of (a2, st2) \<Rightarrow>
           (case (a1, a2) of
              (Inr r1, Inr r2) \<Rightarrow>
                cells st2 r2 = cells st1 r1
                \<and> aggregateByPeriod (cells st rows) period = Inr (cells st1 r1)
                \<and> cells st2 r1 = cells st1 r1
            | (Inl e1, Inl e2) \<Rightarrow> e1 = e2 \<and> aggregateByPeriod (cells st rows) period = Inl e1
            | _ \<Rightarrow> False)
           \<and> cells st2 rows = cells st rows))"
proof (intro conjI impI)
  assume d: "data < next_ref s"
  obtain r1 s1 where run1: "downsampleEven_st data target s = (r1, s1)" by (cases "downsampleEven_st data target s")
  obtain r2 s2 where run2: "downsampleEven_st data target s1 = (r2, s2)" by (cases "downsampleEven_st data target s1")
  have p1: "cells s1 r1 = downsampleEven (cells s data) target"
       "\<forall>q < next_ref s. cells s1 q = cells s q" "next_ref s \<le> next_ref s1" "r1 < next_ref s1"
    using downsampleEven_st_refines [OF d, of target] by (simp_all add: run1)
  have d1: "data < next_ref s1" using d p1(3) by simp
  have p2: "cells s2 r2 = downsampleEven (cells s1 data) target"
       "\<forall>q < next_ref s1. cells s2 q = cells s1 q"
    using downsampleEven_st_refines [OF d1, of target] by (simp_all add: run2)
  have same: "cells s1 data = cells s data" using p1(2) d by simp
  show "case downsampleEven_st data target s of (r1, s1) \<Rightarrow>
         case downsampleEven_st data target s1 of (r2, s2) \<Rightarrow>
           cells s2 r2 = cells s1 r1
           \<and> cells s1 r1 = downsampleEven (cells s data) target
           \<and> cells s2 r1 = cells s1 r1
           \<and> cells s2 data = cells s data"
    using p1 p2 d1 same by (simp add: run1 run2)
next
  assume d: "rows < next_ref st"
  obtain a1 st1 where run1: "aggregateByPeriod_st rows period st = (a1, st1)"
    by (cases "aggregateByPeriod_st rows period st")
  obtain a2 st2 where run2: "aggregateByPeriod_st rows period st1 = (a2, st2)"
    by (cases "aggregateByPeriod_st rows period st1")
  have p1: "case a1 of Inl err \<Rightarrow> aggregateByPeriod (cells st rows) period = Inl err
            | Inr r \<Rightarrow> aggregateByPeriod (cells st rows) period = Inr (cells st1 r) \<and> r < next_ref st1"
       "\<forall>q < next_ref st. cells st1 q = cells st q" "next_ref st \<le> next_ref st1"
    using aggregateByPeriod_st_refines [OF d, of period]
    by (simp_all add: run1 cong: sum.case_cong)
  have d1: "rows < next_ref st1" using d p1(3) by simp
  have same: "cells st1 rows = cells st rows" using p1(2) d by simp
  have p2: "case a2 of Inl err \<Rightarrow> aggregateByPeriod (cells st rows) period = Inl err
            | Inr r \<Rightarrow> aggregateByPeriod (cells st rows) period = Inr (cells st2 r) \<and> r < next_ref st2"
       "\<forall>q < next_ref st1. cells st2 q = cells st1 q"
    using aggregateByPeriod_st_refines [OF d1, of period]
    by (simp_all add: run2 same cong: sum.case_cong)
  show "case aggregateByPeriod_st rows period st of (a1, st1) \<Rightarrow>
         case aggregateByPeriod_st rows period st1 of (a2, st2) \<Rightarrow>
           (case (a1, a2) of
              (Inr r1, Inr r2) \<Rightarrow>
                cells st2 r2 = cells st1 r1
                \<and> aggregateByPeriod (cells st rows) period = Inr (cells st1 r1)
                \<and> cells st2 r1 = cells st1 r1
            | (Inl e1, Inl e2) \<Rightarrow> e1 = e2 \<and> aggregateByPeriod (cells st rows) period = Inl e1
            | _ \<Rightarrow> False)
           \<and> cells st2 rows = cells st rows"
    using p1 p2 d1 same by (cases a1; cases a2) (auto simp: run1 run2)
qed


text \<open>
  The generator skips the weekend: from Wednesday 2020-01-01 to Sunday 2020-01-05 it
  makes three rows.
\<close>

lemma generateMockData_first_week:
  "length (generateMockData 1578182400000 random) = 3"
proof -
  have n: "(if (1578182400000::int) < 1577836800000 then 0
            else nat ((1578182400000 - 1577836800000) div ms_per_day) + 1) = 5"
    by (simp add: ms_per_day_def)
  have upt: "[0..<5] = [0, 1, 2, 3, 4]"
    by (simp add: upt_rec)
  show ?thesis
    unfolding generateMockData_def Let_def n upt
    by (simp add: getDay_def ms_per_day_def)
qed
end
